theory Spec2Isabelle
  imports Complex_Main
begin

section \<open>Python built-ins used by \<^verbatim>\<open>na22ADQ.py\<close>\<close>

text \<open>
  The script is one straight-line module with a single loop.  Every effect it has is
  recorded, in program order, as an event of a trace; the exceptions it can die of are
  values.  A \<open>string\<close> is a list of characters below 256: the bytes of a file, or text
  that is exchanged with the instrument, whose session encodes and decodes with
  \<^verbatim>\<open>latin_1\<close> (line 33), one byte for one code point.  A \<open>str\<close> is Python text in
  general, the list of its code points: \<^verbatim>\<open>int\<close> reads more than Latin-1.  The characters
  that cannot be written inside a literal are named below.
\<close>

datatype pyerror =
    ValueError | OverflowError | ZeroDivisionError
  | UnicodeDecodeError            \<comment> \<open>a subclass of \<^verbatim>\<open>ValueError\<close>\<close>
  | FileNotFoundError | PermissionError | VisaIOError

definition nl :: string where \<comment> \<open>\<^verbatim>\<open>'\n'\<close>\<close>
  "nl = [CHR 0x0A]"

definition tab :: string where \<comment> \<open>\<^verbatim>\<open>'\t'\<close>\<close>
  "tab = [CHR 0x09]"

definition bsl :: string where \<comment> \<open>a backslash\<close>
  "bsl = [CHR 0x5C]"

definition cr :: string where \<comment> \<open>\<^verbatim>\<open>'\r'\<close>\<close>
  "cr = [CHR 0x0D]"

type_synonym str = "nat list"

definition latin_1 :: "string \<Rightarrow> str" where \<comment> \<open>\<^verbatim>\<open>bytes.decode('latin_1')\<close>\<close>
  "latin_1 s = map of_char s"

subsection \<open>\<^verbatim>\<open>int(s)\<close> on a string, \<^verbatim>\<open>str(n)\<close> on an integer\<close>

text \<open>
  What the interpreter that runs the script decides: the Unicode database of its
  version, the limit on the number of digits that \<^verbatim>\<open>int\<close> converts (4300 by default
  from CPython 3.11 on, 0 for no limit, as in the versions before), and the encoding of
  the locale, with which a file opened in text mode is decoded; \<open>None\<close> is
  \<^verbatim>\<open>UnicodeDecodeError\<close>.  The database is asked about the code points from 127 on.
\<close>

record interpreter =
  unicode_isspace :: "nat \<Rightarrow> bool"              \<comment> \<open>\<^verbatim>\<open>Py_UNICODE_ISSPACE\<close>\<close>
  unicode_todecimal :: "nat \<Rightarrow> nat option"      \<comment> \<open>\<^verbatim>\<open>Py_UNICODE_TODECIMAL\<close>: the digit, 0 to 9\<close>
  int_max_str_digits :: nat                    \<comment> \<open>\<^verbatim>\<open>sys.get_int_max_str_digits()\<close>\<close>
  locale_decode :: "string \<Rightarrow> str option"

text \<open>
  \<^verbatim>\<open>int(s)\<close> in CPython, for a \<^verbatim>\<open>str\<close> and base 10.  First
  \<^verbatim>\<open>_PyUnicode_TransformDecimalAndSpaceToASCII\<close>: a code point below 127 is kept, a
  Unicode white space becomes a blank, a Unicode decimal digit becomes its ASCII digit,
  and anything else becomes a question mark, at which the text is cut.
\<close>

fun to_ascii :: "'a interpreter_scheme \<Rightarrow> str \<Rightarrow> str" where
  "to_ascii py [] = []"
| "to_ascii py (c # cs) =
     (if c < 127 then c # to_ascii py cs
      else if unicode_isspace py c then 32 # to_ascii py cs
      else case unicode_todecimal py c of
             Some d \<Rightarrow> (48 + d) # to_ascii py cs
           | None \<Rightarrow> [63])"

text \<open>
  Then \<^verbatim>\<open>PyLong_FromString\<close>: white space of \<^verbatim>\<open>Py_ISSPACE\<close> (tab, line feed, vertical tab,
  form feed, carriage return, blank; not the separators \<^verbatim>\<open>0x1C\<close> to \<^verbatim>\<open>0x1F\<close>), one
  optional sign, the longest run of digits and underscores, which must start and end
  with a digit and hold no two underscores in a row, white space, and the end of the
  text.  More than 640 digits are counted against the limit.  Every failure is a
  \<^verbatim>\<open>ValueError\<close>, here \<open>None\<close>.
\<close>

definition Py_ISSPACE :: "nat \<Rightarrow> bool" where
  "Py_ISSPACE c = (c \<in> set [9, 10, 11, 12, 13, 32])"

definition is_digit :: "nat \<Rightarrow> bool" where
  "is_digit c = (48 \<le> c \<and> c \<le> 57)"

fun doubled :: "str \<Rightarrow> bool" where \<comment> \<open>two underscores in a row\<close>
  "doubled (c # d # cs) = (c = 95 \<and> d = 95 \<or> doubled (d # cs))"
| "doubled _ = False"

definition py_int :: "'a interpreter_scheme \<Rightarrow> str \<Rightarrow> int option" where
  "py_int py s =
     (let t = dropWhile Py_ISSPACE (to_ascii py s);
          neg = (t \<noteq> [] \<and> hd t = 45);
          u = (if t \<noteq> [] \<and> (hd t = 43 \<or> hd t = 45) then tl t else t);
          body = takeWhile (\<lambda>c. is_digit c \<or> c = 95) u;
          rest = dropWhile (\<lambda>c. is_digit c \<or> c = 95) u;
          ds = filter is_digit body
      in if body = [] \<or> hd body = 95 \<or> last body = 95 \<or> doubled body then None
         else if 640 < length ds \<and> 0 < int_max_str_digits py
                 \<and> int_max_str_digits py < length ds then None
         else if dropWhile Py_ISSPACE rest \<noteq> [] then None
         else Some ((if neg then - 1 else 1)
                    * int (foldl (\<lambda>a c. 10 * a + (c - 48)) 0 ds)))"

text \<open>
  \<^verbatim>\<open>file.read()\<close> on a file opened with \<^verbatim>\<open>open(path)\<close>: the decoded text with every
  \<^verbatim>\<open>'\r\n'\<close> and every other \<^verbatim>\<open>'\r'\<close> replaced by \<^verbatim>\<open>'\n'\<close>.
\<close>

fun universal_newlines :: "str \<Rightarrow> str" where
  "universal_newlines (c # d # cs) =
     (if c = 13 \<and> d = 10 then 10 # universal_newlines cs
      else if c = 13 then 10 # universal_newlines (d # cs)
      else c # universal_newlines (d # cs))"
| "universal_newlines [c] = [if c = 13 then 10 else c]"
| "universal_newlines [] = []"

function str_nat :: "nat \<Rightarrow> string" where
  "str_nat n =
     (if n < 10 then [char_of (48 + n)]
      else str_nat (n div 10) @ [char_of (48 + n mod 10)])"
  by pat_completeness auto
termination
  by (relation "measure (\<lambda>n. n)") auto

declare str_nat.simps [simp del]

definition str_int :: "int \<Rightarrow> string" where \<comment> \<open>\<^verbatim>\<open>str(n)\<close>, \<^verbatim>\<open>'{}'.format(n)\<close>, \<^verbatim>\<open>'%s' % n\<close>\<close>
  "str_int i = (if i < 0 then ''-'' @ str_nat (nat (- i)) else str_nat (nat i))"

subsection \<open>Effects\<close>

datatype fmode = ModeR | ModeW | ModeAPlus

datatype event =
    VisaOpen string             \<comment> \<open>\<^verbatim>\<open>rm.open_resource(addr)\<close>\<close>
  | VisaWrite string            \<comment> \<open>\<^verbatim>\<open>dpo.write(cmd)\<close>: nothing is read back\<close>
  | VisaQuery string string     \<comment> \<open>\<^verbatim>\<open>dpo.query(cmd)\<close>: a write, then the response is read\<close>
  | VisaClose                   \<comment> \<open>\<^verbatim>\<open>dpo.close()\<close>\<close>
  | Print string                \<comment> \<open>\<^verbatim>\<open>print(...)\<close>, without the newline that print adds\<close>
  | Sleep rat                   \<comment> \<open>\<^verbatim>\<open>time.sleep(seconds)\<close>\<close>
  | FileOpen string fmode
  | FileRead string
  | FileWrite string string
  | FileClose string

record world =
  trace :: "event list"
  files :: "string \<rightharpoonup> string"

text \<open>
  The environment is everything the script does not decide: the interpreter, the
  instrument's answers, the clock and the file permissions, each a function of the
  history so far, and the float operations.  \<open>None\<close> from the instrument is a transport failure.  The script
  computes with Python floats and formats them into commands; their arithmetic and
  their formatting are parameters: the type \<open>'f\<close> stands for \<^verbatim>\<open>float\<close>.
\<close>

record 'f env = interpreter +
  f_of_str :: "str \<Rightarrow> 'f option"        \<comment> \<open>\<^verbatim>\<open>float(s)\<close>; \<open>None\<close> is \<^verbatim>\<open>ValueError\<close>\<close>
  f_of_int :: "int \<Rightarrow> 'f option"        \<comment> \<open>\<^verbatim>\<open>float(n)\<close>; \<open>None\<close> is \<^verbatim>\<open>OverflowError\<close>\<close>
  f_lit :: "string \<Rightarrow> 'f"               \<comment> \<open>a float or int literal of the source, by its text\<close>
  f_mul :: "'f \<Rightarrow> 'f \<Rightarrow> 'f"
  f_sub :: "'f \<Rightarrow> 'f \<Rightarrow> 'f"
  f_div :: "'f \<Rightarrow> 'f \<Rightarrow> 'f"              \<comment> \<open>used for a divisor that is not zero\<close>
  f_is_zero :: "'f \<Rightarrow> bool"
  f_gt :: "'f \<Rightarrow> 'f \<Rightarrow> bool"
  f_str :: "'f \<Rightarrow> string"               \<comment> \<open>\<^verbatim>\<open>str(x)\<close>, \<^verbatim>\<open>'{}'.format(x)\<close>\<close>
  f_fmt :: "string \<Rightarrow> 'f \<Rightarrow> string"     \<comment> \<open>\<^verbatim>\<open>spec % x\<close> for one conversion such as \<^verbatim>\<open>%.2f\<close>\<close>
  visa_connect :: bool
  visa_write :: "event list \<Rightarrow> string \<Rightarrow> int option"     \<comment> \<open>bytes written\<close>
  visa_query :: "event list \<Rightarrow> string \<Rightarrow> string option"
  clock :: "event list \<Rightarrow> 'f"                              \<comment> \<open>\<^verbatim>\<open>time.time()\<close>\<close>
  now_str :: "event list \<Rightarrow> string"                       \<comment> \<open>\<^verbatim>\<open>str(datetime.datetime.now())\<close>\<close>
  os_denies :: "string \<Rightarrow> fmode \<Rightarrow> bool"

text \<open>
  A statement maps a world to an outcome and the world it leaves.  \<open>StillPolling\<close> is
  the polling loop out of fuel: the script has not returned yet.
\<close>

datatype 'a outcome = Done 'a | Raised pyerror | StillPolling

type_synonym 'a prog = "world \<Rightarrow> 'a outcome \<times> world"

definition ret :: "'a \<Rightarrow> 'a prog" where
  "ret x w = (Done x, w)"

definition raise :: "pyerror \<Rightarrow> 'a prog" where
  "raise e w = (Raised e, w)"

definition bind :: "'a prog \<Rightarrow> ('a \<Rightarrow> 'b prog) \<Rightarrow> 'b prog" where
  "bind m f w =
     (case m w of
        (Done x, w') \<Rightarrow> f x w'
      | (Raised e, w') \<Rightarrow> (Raised e, w')
      | (StillPolling, w') \<Rightarrow> (StillPolling, w'))"

fun seq :: "unit prog list \<Rightarrow> unit prog" where
  "seq [] = ret ()"
| "seq (m # ms) = bind m (\<lambda>_. seq ms)"

definition emit :: "event \<Rightarrow> unit prog" where
  "emit e w = (Done (), w\<lparr>trace := trace w @ [e]\<rparr>)"

definition py_print :: "string \<Rightarrow> unit prog" where
  "py_print s = emit (Print s)"

definition sleep :: "rat \<Rightarrow> unit prog" where
  "sleep d = emit (Sleep d)"

definition time_time :: "'f env \<Rightarrow> 'f prog" where
  "time_time env w = (Done (clock env (trace w)), w)"

definition datetime_now :: "'f env \<Rightarrow> string prog" where
  "datetime_now env w = (Done (now_str env (trace w)), w)"

definition open_resource :: "'f env \<Rightarrow> string \<Rightarrow> unit prog" where
  "open_resource env addr =
     (if visa_connect env then emit (VisaOpen addr) else raise VisaIOError)"

definition dpo_write_count :: "'f env \<Rightarrow> string \<Rightarrow> int prog" where
  "dpo_write_count env cmd w =
     (case visa_write env (trace w) cmd of
        None \<Rightarrow> (Raised VisaIOError, w)
      | Some n \<Rightarrow> (Done n, w\<lparr>trace := trace w @ [VisaWrite cmd]\<rparr>))"

definition dpo_write :: "'f env \<Rightarrow> string \<Rightarrow> unit prog" where
  "dpo_write env cmd = bind (dpo_write_count env cmd) (\<lambda>_. ret ())"

definition dpo_query :: "'f env \<Rightarrow> string \<Rightarrow> string prog" where
  "dpo_query env cmd w =
     (case visa_query env (trace w) cmd of
        None \<Rightarrow> (Raised VisaIOError, w)
      | Some r \<Rightarrow> (Done r, w\<lparr>trace := trace w @ [VisaQuery cmd r]\<rparr>))"

definition dpo_close :: "unit prog" where
  "dpo_close = emit VisaClose"

text \<open>
  Files: \<^verbatim>\<open>open(p)\<close> needs the file to exist, \<^verbatim>\<open>open(p, "w")\<close> creates or truncates
  it, \<^verbatim>\<open>open(p, "a+")\<close> creates it or keeps its content; \<^verbatim>\<open>write\<close> appends to the
  content.
\<close>

definition py_open :: "'f env \<Rightarrow> string \<Rightarrow> fmode \<Rightarrow> unit prog" where
  "py_open env p mode w =
     (if os_denies env p mode then (Raised PermissionError, w)
      else case mode of
        ModeR \<Rightarrow>
          (case files w p of
             None \<Rightarrow> (Raised FileNotFoundError, w)
           | Some _ \<Rightarrow> (Done (), w\<lparr>trace := trace w @ [FileOpen p mode]\<rparr>))
      | ModeW \<Rightarrow>
          (Done (), w\<lparr>trace := trace w @ [FileOpen p mode], files := (files w)(p \<mapsto> [])\<rparr>)
      | ModeAPlus \<Rightarrow>
          (Done (), w\<lparr>trace := trace w @ [FileOpen p mode],
                       files := (files w)(p \<mapsto> (case files w p of None \<Rightarrow> [] | Some c \<Rightarrow> c))\<rparr>))"

definition py_read :: "string \<Rightarrow> string prog" where
  "py_read p w =
     (Done (case files w p of None \<Rightarrow> [] | Some c \<Rightarrow> c), w\<lparr>trace := trace w @ [FileRead p]\<rparr>)"

definition py_write :: "string \<Rightarrow> string \<Rightarrow> unit prog" where
  "py_write p s w =
     (Done (), w\<lparr>trace := trace w @ [FileWrite p s],
                  files := (files w)(p \<mapsto> (case files w p of None \<Rightarrow> [] | Some c \<Rightarrow> c) @ s)\<rparr>)"

definition py_close :: "string \<Rightarrow> unit prog" where
  "py_close p = emit (FileClose p)"

section \<open>The script\<close>

text \<open>
  Outside the model: \<^verbatim>\<open>parse_args\<close> itself (a run starts from the namespace it
  returned), failures of \<^verbatim>\<open>print\<close> and of \<^verbatim>\<open>write\<close> on an open file, and errors of
  \<^verbatim>\<open>open\<close> other than a missing file and a refusal by the operating system.
\<close>

text \<open>
  \<open>args\<close> is the namespace that \<^verbatim>\<open>parser.parse_args()\<close> returns (line 65): the options
  declared with \<^verbatim>\<open>type=str\<close> are text, those with \<^verbatim>\<open>type=float\<close> floats, and
  \<^verbatim>\<open>--save\<close> is an integer.  The two options whose text goes into instrument commands
  are Latin-1 strings.  The default of \<^verbatim>\<open>--runNumber\<close> is the integer \<^verbatim>\<open>-1\<close>, on which
  \<^verbatim>\<open>int\<close> is the identity: it is the text \<^verbatim>\<open>-1\<close> here.
\<close>

record 'f args =
  arg_numEvents :: str
  arg_runNumber :: str
  arg_sampleRate :: str
  arg_horizontalWindow :: str
  arg_trigCh :: string
  arg_trig :: 'f
  arg_trigSlope :: string
  arg_vScale1 :: 'f
  arg_vPos1 :: 'f
  arg_timeoffset :: 'f
  arg_save :: int
  arg_timeout :: 'f

text \<open>The module-level variables assigned on lines 66 to 103.\<close>

record 'f vars =
  trigCh :: string
  runNumberParam :: int
  trigLevel :: 'f
  triggerSlope :: string
  timeoffset :: 'f
  savewaves :: int
  timeout :: 'f
  samplingrate :: 'f
  hScale :: 'f
  numEvents :: int
  numPoints :: 'f
  vScale_ch1 :: 'f
  vPos_ch1 :: 'f
  date :: string

definition RunNumberFile :: string where \<comment> \<open>line 110; \<^verbatim>\<open>\r\<close> in the literal is a carriage return\<close>
  "RunNumberFile = ''F:'' @ bsl @ ''OSCDAta'' @ cr @ ''unNumber.txt''"

definition log_path :: string where \<comment> \<open>line 133\<close>
  "log_path = ''F:'' @ bsl @ ''OSCDAta'' @ bsl @ ''Acquisition'' @ bsl @ ''Logbook.txt''"

definition run_log_path :: string where \<comment> \<open>line 134\<close>
  "run_log_path = ''F:'' @ bsl @ ''OSCDAta'' @ bsl @ ''AcquisitionRunLog.txt''"

definition output_path :: string where \<comment> \<open>line 297\<close>
  "output_path = ''C:'' @ bsl @ ''LCE_BTL_Module'' @ bsl"

text \<open>Lines 25 to 34: the session is opened and identified before anything else.\<close>

definition connect :: "'f env \<Rightarrow> unit prog" where
  "connect env =
     seq [open_resource env ''TCPIP::192.168.0.182::INSTR'',
          bind (dpo_query env ''*idn?'') py_print]"

text \<open>
  Lines 66 to 103.  \<^verbatim>\<open>int(args.runNumber)\<close>, \<^verbatim>\<open>float(args.sampleRate)\<close> and
  \<^verbatim>\<open>int(args.numEvents)\<close> can raise.  \<^verbatim>\<open>args.horizontalWindow\<close> is not read: line 80
  is a comment and \<^verbatim>\<open>hScale\<close> is the literal of line 83.
\<close>

definition read_args :: "'f env \<Rightarrow> 'f args \<Rightarrow> 'f vars prog" where
  "read_args env a =
     (let trigCh0 = arg_trigCh a in
      case py_int env (arg_runNumber a) of
        None \<Rightarrow> raise ValueError
      | Some runNumberParam' \<Rightarrow>
         (let trigCh' = (if trigCh0 \<noteq> ''AUX'' then ''CHANnel'' @ trigCh0 else trigCh0);
              trigLevel' = arg_trig a;
              triggerSlope' = arg_trigSlope a;
              timeoffset' = f_mul env (arg_timeoffset a) (f_lit env ''1e-9'')
          in
          bind (py_print (''timeoffset is  '' @ f_str env timeoffset')) (\<lambda>_.
          let savewaves' = arg_save a;
              timeout' = arg_timeout a
          in
          bind (py_print (str_int savewaves')) (\<lambda>_.
          bind (py_print (''timeout is  '' @ f_str env timeout')) (\<lambda>_.
          case f_of_str env (arg_sampleRate a) of
            None \<Rightarrow> raise ValueError
          | Some sr \<Rightarrow>
             (let samplingrate' = f_mul env sr (f_lit env ''1e+9'');
                  hScale' = f_lit env ''1e-6''
              in
              case py_int env (arg_numEvents a) of
                None \<Rightarrow> raise ValueError
              | Some numEvents' \<Rightarrow>
                 (let numPoints' = f_mul env samplingrate' hScale' in
                  bind (py_print (''numPoints is =  '' @ f_str env numPoints')) (\<lambda>_.
                  bind (py_print (''samplerate is =  '' @ f_str env samplingrate')) (\<lambda>_.
                  bind (datetime_now env) (\<lambda>date'.
                  ret \<lparr>trigCh = trigCh', runNumberParam = runNumberParam',
                       trigLevel = trigLevel', triggerSlope = triggerSlope',
                       timeoffset = timeoffset', savewaves = savewaves',
                       timeout = timeout', samplingrate = samplingrate',
                       hScale = hScale', numEvents = numEvents', numPoints = numPoints',
                       vScale_ch1 = arg_vScale1 a, vPos_ch1 = arg_vPos1 a,
                       date = date'\<rparr>))))))))))"

text \<open>
  Lines 108 to 114.  \<^verbatim>\<open>file.read()\<close> decodes the bytes of the file and \<^verbatim>\<open>int\<close> reads
  the text; the \<^verbatim>\<open>with\<close> statement closes the file before the \<^verbatim>\<open>UnicodeDecodeError\<close>
  of the one or the \<^verbatim>\<open>ValueError\<close> of the other leaves it.  Lines 121 and 122, which
  would store the incremented number, are comments.
\<close>

definition configure_run_number :: "'f env \<Rightarrow> 'f vars \<Rightarrow> int prog" where
  "configure_run_number env v =
     (if runNumberParam v = - 1 then
        bind (py_open env RunNumberFile ModeR) (\<lambda>_.
        bind (py_read RunNumberFile) (\<lambda>s.
        bind (py_close RunNumberFile) (\<lambda>_.
        case locale_decode env s of
          None \<Rightarrow> raise UnicodeDecodeError
        | Some t \<Rightarrow>
            (case py_int env (universal_newlines t) of
               None \<Rightarrow> raise ValueError
             | Some n \<Rightarrow> ret n))))
      else ret (runNumberParam v))"

text \<open>Lines 116 to 119.\<close>

definition announce :: "'f vars \<Rightarrow> int \<Rightarrow> unit prog" where
  "announce v runNumber =
     seq [py_print (''######## Starting RUN '' @ str_int runNumber @ '' ########'' @ nl),
          py_print (''---------------------'' @ nl),
          py_print (date v),
          py_print (''---------------------'' @ nl)]"

text \<open>Lines 137 to 142.\<close>

definition open_logbook :: "'f env \<Rightarrow> 'f vars \<Rightarrow> int \<Rightarrow> unit prog" where
  "open_logbook env v runNumber =
     seq [py_open env log_path ModeAPlus,
          py_write log_path
            (nl @ nl @ ''#### SCOPE LOGBOOK -- RUN NUMBER '' @ str_int runNumber @ '' ####'' @ nl @ nl),
          py_write log_path (''Date:'' @ tab @ date v @ nl),
          py_write log_path (''---------------------------------------------------------'' @ nl),
          py_write log_path (''Number of events per file: '' @ str_int (numEvents v) @ '' '' @ nl),
          py_write log_path (''---------------------------------------------------------'' @ nl @ nl)]"

text \<open>Lines 148 to 170.  Line 148 is a \<^verbatim>\<open>write\<close>: nothing is read after it.\<close>

definition horizontal_setup :: "'f env \<Rightarrow> 'f vars \<Rightarrow> unit prog" where
  "horizontal_setup env v =
     seq [dpo_write env '':STOP;*OPC?'',
          dpo_write env ('':TIMebase:RANGe '' @ f_str env (hScale v)),
          dpo_write env '':TIMebase:REFerence:PERCent 70'',
          dpo_write env '':ACQuire:SRATe:ANALog:AUTO ON'',
          bind (dpo_query env '':ACQuire:SRATe:ANALog?'')
            (\<lambda>r. py_print ('':ACQuire:SRATe:ANALog  '' @ r)),
          dpo_write env ('':TIMebase:POSition '' @ f_str env (timeoffset v)),
          dpo_write env '':ACQuire:MODE SEGMented'',
          dpo_write env ('':ACQuire:SEGMented:COUNt '' @ str_int (numEvents v)),
          dpo_write env '':ACQuire:POINts:ANALog AUTO'',
          dpo_write env '':ACQuire:INTerpolate 0'',
          py_print ''# SCOPE HORIZONTAL SETUP #'',
          py_print (''Horizontal scale set to '' @ f_str env (hScale v) @ '' s for range'' @ nl),
          py_print (''Horizontal offset set to '' @ f_str env (timeoffset v) @ '' s '' @ nl),
          py_write log_path (''HORIZONTAL SETUP'' @ nl),
          py_write log_path
            (''Horizontal scale set to '' @ f_str env (hScale v) @ '' s for range'' @ nl),
          py_write log_path
            (''Horizontal offset set to '' @ f_str env (timeoffset v) @ '' s'' @ nl)]"

text \<open>Lines 185 to 187.\<close>

definition bandwidth_setup :: "'f env \<Rightarrow> unit prog" where
  "bandwidth_setup env =
     seq [dpo_write env '':ACQuire:BANDwidth 5.E10'',
          py_print ''Bandwidth set to 500 MHz'',
          py_write log_path (''Bandwidth set to 500 MHz '' @ nl)]"

text \<open>Lines 190 to 220: channel 1 only, the other channels are comments.\<close>

definition vertical_setup :: "'f env \<Rightarrow> 'f vars \<Rightarrow> unit prog" where
  "vertical_setup env v =
     seq [dpo_write env (''CHANnel1:SCALe '' @ f_str env (vScale_ch1 v)),
          dpo_write env (''CHANnel1:OFFSet '' @ f_str env (vPos_ch1 v)),
          py_print ''# VERTICAL SETUP #'',
          py_print (''- CH1: vertical scale set to '' @ f_str env (vScale_ch1 v)
                    @ '' V for division'' @ nl),
          py_print (''- CH1: vertical offset set to '' @ f_str env (vPos_ch1 v) @ '' V '' @ nl),
          py_write log_path (''VERTICAL SETUP'' @ nl),
          py_write log_path
            (''- CH1: vertical scale set to '' @ f_str env (vScale_ch1 v)
             @ '' V for division'' @ nl),
          py_write log_path
            (''- CH1: vertical offset set to '' @ f_str env (vPos_ch1 v) @ '' V '' @ nl)]"

text \<open>Lines 227 to 242.\<close>

definition trigger_setup :: "'f env \<Rightarrow> 'f vars \<Rightarrow> unit prog" where
  "trigger_setup env v =
     (let trigprint = f_fmt env ''%.3f'' (trigLevel v) in
      seq [dpo_write env
             (''TRIGger:MODE EDGE; :TRIGger:EDGE:SOURce '' @ trigCh v
              @ ''; :TRIGger:LEVel '' @ trigCh v @ '', '' @ f_fmt env ''%f'' (trigLevel v)),
           dpo_write env ('':TRIGger:EDGE:SLOPe '' @ triggerSlope v @ '';''),
           py_print ''# TRIGGER SETUP #'',
           py_print (''Trigger Channel set to '' @ trigCh v @ nl),
           py_print (''Trigger scale set to '' @ trigprint @ '' V'' @ nl),
           py_print (''Trigger on '' @ triggerSlope v @ '' edge '' @ nl @ nl @ nl @ nl),
           py_write log_path (''TRIGGER SETUP'' @ nl),
           py_write log_path (''- Trigger Channel set to '' @ trigCh v @ nl),
           py_write log_path (''- Trigger scale set to '' @ trigprint @ '' V'' @ nl),
           py_write log_path (''- Trigger on '' @ triggerSlope v @ '' edge '' @ nl @ nl @ nl @ nl),
           py_close log_path,
           py_print (''Horizontal, vertical, and trigger settings configured.'' @ nl)])"

text \<open>Lines 245 to 251, 285 to 289 and 329 to 333: the status file.\<close>

definition status_busy :: "'f env \<Rightarrow> unit prog" where
  "status_busy env =
     seq [py_open env run_log_path ModeW,
          py_write run_log_path ''busy'',
          py_close run_log_path]"

definition status_writing :: "'f env \<Rightarrow> unit prog" where
  "status_writing env =
     seq [py_open env run_log_path ModeW,
          py_write run_log_path ''writing'',
          py_write run_log_path nl,
          py_close run_log_path]"

definition status_ready :: "'f env \<Rightarrow> unit prog" where
  "status_ready env =
     seq [py_open env run_log_path ModeW,
          py_write run_log_path ''ready'',
          py_write run_log_path nl,
          py_close run_log_path]"

text \<open>
  Lines 266 to 279, the \<^verbatim>\<open>while True\<close> loop, with fuel: \<open>poll k\<close> runs at most \<open>k\<close>
  iterations and is \<open>StillPolling\<close> when they did not end the loop.  The value returned
  is \<^verbatim>\<open>end_early\<close>.  \<^verbatim>\<open>and\<close> short-cuts: the clock is read only when the timeout
  is positive.
\<close>

primrec poll :: "nat \<Rightarrow> 'f env \<Rightarrow> 'f \<Rightarrow> 'f \<Rightarrow> bool prog" where
  "poll 0 env timeout' start = (\<lambda>w. (StillPolling, w))"
| "poll (Suc k) env timeout' start =
     bind (dpo_query env '':ADER?'') (\<lambda>r.
     case py_int env (latin_1 r) of
       None \<Rightarrow> raise ValueError
     | Some n \<Rightarrow>
         if n = 1 then bind (py_print ''Acquisition complete'') (\<lambda>_. ret False)
         else
           bind (sleep (1 / 10)) (\<lambda>_.
           if f_gt env timeout' (f_lit env ''0'') then
             bind (time_time env) (\<lambda>now.
             if f_gt env (f_sub env now start) timeout' then
               bind (dpo_write env '':STOP;*OPC?'') (\<lambda>_. ret True)
             else poll k env timeout' start)
           else poll k env timeout' start))"

text \<open>Lines 257 to 281.\<close>

definition acquire :: "nat \<Rightarrow> 'f env \<Rightarrow> 'f vars \<Rightarrow> ('f \<times> 'f \<times> bool) prog" where
  "acquire k env v =
     bind (sleep 2) (\<lambda>_.
     bind (dpo_write_count env '':CDISplay'') (\<lambda>n.
     bind (py_print (str_int n)) (\<lambda>_.
     bind (dpo_write env ''*CLS;:SINGle'') (\<lambda>_.
     bind (time_time env) (\<lambda>start.
     bind (poll k env (timeout v) start) (\<lambda>end_early.
     bind (time_time env) (\<lambda>end'.
     ret (start, end', end_early))))))))"

text \<open>
  Lines 291 to 295.  The rate is computed on both paths and printed on one; the
  division has no guard, and Python raises \<^verbatim>\<open>ZeroDivisionError\<close> on a zero divisor.
\<close>

definition report :: "'f env \<Rightarrow> 'f vars \<Rightarrow> 'f \<Rightarrow> 'f \<Rightarrow> bool \<Rightarrow> ('f \<times> 'f) prog" where
  "report env v start end' end_early =
     (let duration = f_sub env end' start in
      case f_of_int env (numEvents v) of
        None \<Rightarrow> raise OverflowError
      | Some ne \<Rightarrow>
          if f_is_zero env duration then raise ZeroDivisionError
          else
            (let trigRate = f_div env ne duration in
             bind
               (if \<not> end_early then
                  py_print (nl @ ''Run duration: '' @ f_fmt env ''%0.2f'' duration
                            @ '' s. Trigger rate: '' @ f_fmt env ''%.2f'' trigRate
                            @ '' Hz'' @ nl)
                else
                  py_print (nl @ ''Run duration: '' @ f_fmt env ''%0.2f'' duration
                            @ '' s. Trigger rate: unknown'' @ nl))
               (\<lambda>_. ret (duration, trigRate))))"

text \<open>Lines 296 to 309; the block for channels 2 to 4 is inside a string literal.\<close>

definition export :: "'f env \<Rightarrow> 'f vars \<Rightarrow> int \<Rightarrow> unit prog" where
  \<open>export env v runNumber =
     (if savewaves v \<noteq> 0 then
        seq [dpo_write env '':DISK:SEGMented ALL'',
             bind (dpo_query env ''*OPC?'') py_print,
             py_print ''Ready to save all segments'',
             sleep (1 / 2),
             dpo_write env
               ('':DISK:SAVE:WAVeform CHANnel1 ,"'' @ output_path
                @ ''Wavenewscope_CH1_run'' @ str_int runNumber @ ''",BIN,ON''),
             bind (dpo_query env ''*OPC?'') py_print,
             py_print ''Saved Channel 1 waveform'',
             sleep 1]
      else ret ())\<close>

text \<open>
  The module, top to bottom.  It returns nothing; the value here is the module's
  variables when it ends.
\<close>

record 'f globals =
  vars :: "'f vars"
  runNumber :: int
  start :: 'f
  end' :: 'f
  end_early :: bool
  duration :: 'f
  trigRate :: 'f

definition script :: "nat \<Rightarrow> 'f env \<Rightarrow> 'f args \<Rightarrow> 'f globals prog" where
  "script k env a =
     bind (connect env) (\<lambda>_.
     bind (read_args env a) (\<lambda>v.
     bind (configure_run_number env v) (\<lambda>rn.
     bind (seq [announce v rn,
                open_logbook env v rn,
                horizontal_setup env v,
                bandwidth_setup env,
                vertical_setup env v,
                trigger_setup env v,
                status_busy env]) (\<lambda>_.
     bind (acquire k env v) (\<lambda>(t0, t1, ee).
     bind (status_writing env) (\<lambda>_.
     bind (report env v t0 t1 ee) (\<lambda>(d, tr).
     bind (seq [export env v rn,
                status_ready env,
                dpo_close]) (\<lambda>_.
     ret \<lparr>vars = v, runNumber = rn, start = t0, end' = t1, end_early = ee,
          duration = d, trigRate = tr\<rparr>))))))))"

definition main :: "nat \<Rightarrow> 'f env \<Rightarrow> 'f args \<Rightarrow> (string \<rightharpoonup> string) \<Rightarrow> 'f globals outcome \<times> world" where
  "main k env a fs = script k env a \<lparr>trace = [], files = fs\<rparr>"

definition announce_events :: "'f vars \<Rightarrow> int \<Rightarrow> event list" where
  "announce_events v rn =
     [Print (''######## Starting RUN '' @ str_int rn @ '' ########'' @ nl),
      Print (''---------------------'' @ nl),
      Print (date v),
      Print (''---------------------'' @ nl)]"

definition logbook_events :: "'f vars \<Rightarrow> int \<Rightarrow> event list" where
  "logbook_events v rn =
     [FileOpen log_path ModeAPlus,
      FileWrite log_path
        (nl @ nl @ ''#### SCOPE LOGBOOK -- RUN NUMBER '' @ str_int rn @ '' ####'' @ nl @ nl),
      FileWrite log_path (''Date:'' @ tab @ date v @ nl),
      FileWrite log_path (''---------------------------------------------------------'' @ nl),
      FileWrite log_path (''Number of events per file: '' @ str_int (numEvents v) @ '' '' @ nl),
      FileWrite log_path (''---------------------------------------------------------'' @ nl @ nl)]"

definition horizontal_events :: "'f env \<Rightarrow> 'f vars \<Rightarrow> string \<Rightarrow> event list" where
  "horizontal_events env v r =
     [VisaWrite '':STOP;*OPC?'',
      VisaWrite ('':TIMebase:RANGe '' @ f_str env (hScale v)),
      VisaWrite '':TIMebase:REFerence:PERCent 70'',
      VisaWrite '':ACQuire:SRATe:ANALog:AUTO ON'',
      VisaQuery '':ACQuire:SRATe:ANALog?'' r,
      Print ('':ACQuire:SRATe:ANALog  '' @ r),
      VisaWrite ('':TIMebase:POSition '' @ f_str env (timeoffset v)),
      VisaWrite '':ACQuire:MODE SEGMented'',
      VisaWrite ('':ACQuire:SEGMented:COUNt '' @ str_int (numEvents v)),
      VisaWrite '':ACQuire:POINts:ANALog AUTO'',
      VisaWrite '':ACQuire:INTerpolate 0'',
      Print ''# SCOPE HORIZONTAL SETUP #'',
      Print (''Horizontal scale set to '' @ f_str env (hScale v) @ '' s for range'' @ nl),
      Print (''Horizontal offset set to '' @ f_str env (timeoffset v) @ '' s '' @ nl),
      FileWrite log_path (''HORIZONTAL SETUP'' @ nl),
      FileWrite log_path
        (''Horizontal scale set to '' @ f_str env (hScale v) @ '' s for range'' @ nl),
      FileWrite log_path
        (''Horizontal offset set to '' @ f_str env (timeoffset v) @ '' s'' @ nl)]"

definition bandwidth_events :: "event list" where
  "bandwidth_events =
     [VisaWrite '':ACQuire:BANDwidth 5.E10'',
      Print ''Bandwidth set to 500 MHz'',
      FileWrite log_path (''Bandwidth set to 500 MHz '' @ nl)]"

definition vertical_events :: "'f env \<Rightarrow> 'f vars \<Rightarrow> event list" where
  "vertical_events env v =
     [VisaWrite (''CHANnel1:SCALe '' @ f_str env (vScale_ch1 v)),
      VisaWrite (''CHANnel1:OFFSet '' @ f_str env (vPos_ch1 v)),
      Print ''# VERTICAL SETUP #'',
      Print (''- CH1: vertical scale set to '' @ f_str env (vScale_ch1 v)
             @ '' V for division'' @ nl),
      Print (''- CH1: vertical offset set to '' @ f_str env (vPos_ch1 v) @ '' V '' @ nl),
      FileWrite log_path (''VERTICAL SETUP'' @ nl),
      FileWrite log_path
        (''- CH1: vertical scale set to '' @ f_str env (vScale_ch1 v) @ '' V for division'' @ nl),
      FileWrite log_path
        (''- CH1: vertical offset set to '' @ f_str env (vPos_ch1 v) @ '' V '' @ nl)]"

definition trigger_events :: "'f env \<Rightarrow> 'f vars \<Rightarrow> event list" where
  "trigger_events env v =
     [VisaWrite (''TRIGger:MODE EDGE; :TRIGger:EDGE:SOURce '' @ trigCh v
                 @ ''; :TRIGger:LEVel '' @ trigCh v @ '', '' @ f_fmt env ''%f'' (trigLevel v)),
      VisaWrite ('':TRIGger:EDGE:SLOPe '' @ triggerSlope v @ '';''),
      Print ''# TRIGGER SETUP #'',
      Print (''Trigger Channel set to '' @ trigCh v @ nl),
      Print (''Trigger scale set to '' @ f_fmt env ''%.3f'' (trigLevel v) @ '' V'' @ nl),
      Print (''Trigger on '' @ triggerSlope v @ '' edge '' @ nl @ nl @ nl @ nl),
      FileWrite log_path (''TRIGGER SETUP'' @ nl),
      FileWrite log_path (''- Trigger Channel set to '' @ trigCh v @ nl),
      FileWrite log_path (''- Trigger scale set to '' @ f_fmt env ''%.3f'' (trigLevel v)
                          @ '' V'' @ nl),
      FileWrite log_path (''- Trigger on '' @ triggerSlope v @ '' edge '' @ nl @ nl @ nl @ nl),
      FileClose log_path,
      Print (''Horizontal, vertical, and trigger settings configured.'' @ nl)]"

definition status_events :: "string list \<Rightarrow> event list" where
  "status_events ss =
     FileOpen run_log_path ModeW # map (FileWrite run_log_path) ss @ [FileClose run_log_path]"

definition misses :: "string list \<Rightarrow> event list" where
  "misses rs = concat (map (\<lambda>r. [VisaQuery '':ADER?'' r, Sleep (1 / 10)]) rs)"

definition arm_events :: "int \<Rightarrow> event list" where
  "arm_events n =
     [Sleep 2, VisaWrite '':CDISplay'', Print (str_int n), VisaWrite ''*CLS;:SINGle'']"

definition poll_events :: "string list \<Rightarrow> bool \<Rightarrow> string \<Rightarrow> event list" where
  "poll_events rs ee r =
     misses rs @ (if ee then [VisaWrite '':STOP;*OPC?'']
                  else [VisaQuery '':ADER?'' r, Print ''Acquisition complete''])"

definition report_line :: "'f env \<Rightarrow> bool \<Rightarrow> 'f \<Rightarrow> 'f \<Rightarrow> string" where
  "report_line env ee d tr =
     (if ee then nl @ ''Run duration: '' @ f_fmt env ''%0.2f'' d
                 @ '' s. Trigger rate: unknown'' @ nl
      else nl @ ''Run duration: '' @ f_fmt env ''%0.2f'' d
           @ '' s. Trigger rate: '' @ f_fmt env ''%.2f'' tr @ '' Hz'' @ nl)"

definition export_events :: "int \<Rightarrow> int \<Rightarrow> string \<Rightarrow> string \<Rightarrow> event list" where
  \<open>export_events sv rn r1 r2 =
     (if sv \<noteq> 0 then
        [VisaWrite '':DISK:SEGMented ALL'',
         VisaQuery ''*OPC?'' r1,
         Print r1,
         Print ''Ready to save all segments'',
         Sleep (1 / 2),
         VisaWrite ('':DISK:SAVE:WAVeform CHANnel1 ,"'' @ output_path
                    @ ''Wavenewscope_CH1_run'' @ str_int rn @ ''",BIN,ON''),
         VisaQuery ''*OPC?'' r2,
         Print r2,
         Print ''Saved Channel 1 waveform'',
         Sleep 1]
      else [])\<close>

text \<open>Projections of a trace.\<close>

fun visa_writes :: "event list \<Rightarrow> string list" where
  "visa_writes [] = []"
| "visa_writes (VisaWrite c # es) = c # visa_writes es"
| "visa_writes (_ # es) = visa_writes es"

fun is_visa :: "event \<Rightarrow> bool" where
  "is_visa (VisaOpen _) = True"
| "is_visa (VisaWrite _) = True"
| "is_visa (VisaQuery _ _) = True"
| "is_visa VisaClose = True"
| "is_visa _ = False"

definition visa_io :: "event list \<Rightarrow> event list" where
  "visa_io tr = filter is_visa tr"

fun on_file :: "string \<Rightarrow> event \<Rightarrow> bool" where
  "on_file p (FileOpen q _) = (q = p)"
| "on_file p (FileRead q) = (q = p)"
| "on_file p (FileWrite q _) = (q = p)"
| "on_file p (FileClose q) = (q = p)"
| "on_file p _ = False"

text \<open>
  A simulated machine for the examples.  The interpreter is CPython 3.11 where the
  locale encoding is code page 1252: the white space and the decimal digits of Unicode
  14 from 127 on (the digits by the zero of each run of ten), the default limit of
  4300 digits, and the decoder of \<^verbatim>\<open>cp1252\<close>, which differs from Latin-1 on the bytes
  \<^verbatim>\<open>0x80\<close> to \<^verbatim>\<open>0x9F\<close> and refuses five of them.
\<close>

definition ucd_space :: "nat list" where
  "ucd_space =
     [0x85, 0xA0, 0x1680, 0x2000, 0x2001, 0x2002, 0x2003, 0x2004, 0x2005, 0x2006, 0x2007,
      0x2008, 0x2009, 0x200A, 0x2028, 0x2029, 0x202F, 0x205F, 0x3000]"

definition ucd_zeros :: "nat list" where
  "ucd_zeros =
     [0x660, 0x6F0, 0x7C0, 0x966, 0x9E6, 0xA66, 0xAE6, 0xB66, 0xBE6, 0xC66, 0xCE6, 0xD66,
      0xDE6, 0xE50, 0xED0, 0xF20, 0x1040, 0x1090, 0x17E0, 0x1810, 0x1946, 0x19D0, 0x1A80,
      0x1A90, 0x1B50, 0x1BB0, 0x1C40, 0x1C50, 0xA620, 0xA8D0, 0xA900, 0xA9D0, 0xA9F0,
      0xAA50, 0xABF0, 0xFF10, 0x104A0, 0x10D30, 0x11066, 0x110F0, 0x11136, 0x111D0,
      0x112F0, 0x11450, 0x114D0, 0x11650, 0x116C0, 0x11730, 0x118E0, 0x11950, 0x11C50,
      0x11D50, 0x11DA0, 0x16A60, 0x16AC0, 0x16B50, 0x1D7CE, 0x1D7D8, 0x1D7E2, 0x1D7EC,
      0x1D7F6, 0x1E140, 0x1E2F0, 0x1E950, 0x1FBF0]"

definition cp1252_high :: "nat option list" where \<comment> \<open>the bytes \<^verbatim>\<open>0x80\<close> to \<^verbatim>\<open>0x9F\<close>\<close>
  "cp1252_high =
     [Some 0x20AC, None, Some 0x201A, Some 0x192, Some 0x201E, Some 0x2026, Some 0x2020,
      Some 0x2021, Some 0x2C6, Some 0x2030, Some 0x160, Some 0x2039, Some 0x152, None,
      Some 0x17D, None, None, Some 0x2018, Some 0x2019, Some 0x201C, Some 0x201D,
      Some 0x2022, Some 0x2013, Some 0x2014, Some 0x2DC, Some 0x2122, Some 0x161,
      Some 0x203A, Some 0x153, None, Some 0x17E, Some 0x178]"

fun cp1252 :: "string \<Rightarrow> str option" where
  "cp1252 [] = Some []"
| "cp1252 (b # bs) =
     (case (if 128 \<le> (of_char b :: nat) \<and> (of_char b :: nat) < 160
            then cp1252_high ! (of_char b - 128) else Some (of_char b)) of
        None \<Rightarrow> None
      | Some c \<Rightarrow> map_option ((#) c) (cp1252 bs))"

definition cpython :: interpreter where
  "cpython =
     \<lparr>unicode_isspace = (\<lambda>c. c \<in> set ucd_space),
      unicode_todecimal = (\<lambda>c. case find (\<lambda>z. z \<le> c \<and> c < z + 10) ucd_zeros of
                                   None \<Rightarrow> None
                                 | Some z \<Rightarrow> Some (c - z)),
      int_max_str_digits = 4300,
      locale_decode = cp1252\<rparr>"

text \<open>
  The simulated instrument: rational numbers stand for floats, every command is
  accepted, and the completion register reads 1 from the poll numbered \<open>polls\<close> on
  (never, when \<open>polls\<close> is \<open>None\<close>).
\<close>

definition rat_str :: "rat \<Rightarrow> string" where
  "rat_str x = (case quotient_of x of (p, q) \<Rightarrow> str_int p @ ''/'' @ str_int q)"

fun is_ader :: "event \<Rightarrow> bool" where
  "is_ader (VisaQuery c r) = (c = '':ADER?'')"
| "is_ader _ = False"

definition sim_env :: "nat option \<Rightarrow> (event list \<Rightarrow> rat) \<Rightarrow> rat env" where
  "sim_env polls clk =
     \<lparr>unicode_isspace = unicode_isspace cpython,
      unicode_todecimal = unicode_todecimal cpython,
      int_max_str_digits = int_max_str_digits cpython,
      locale_decode = locale_decode cpython,
      f_of_str = (\<lambda>s. map_option rat_of_int (py_int cpython s)),
      f_of_int = (\<lambda>n. Some (rat_of_int n)),
      f_lit = (\<lambda>s. if s = ''1e-9'' then 1 / 1000000000
                    else if s = ''1e+9'' then 1000000000
                    else if s = ''1e-6'' then 1 / 1000000 else 0),
      f_mul = (\<lambda>x y. x * y),
      f_sub = (\<lambda>x y. x - y),
      f_div = (\<lambda>x y. x / y),
      f_is_zero = (\<lambda>x. x = 0),
      f_gt = (\<lambda>x y. y < x),
      f_str = rat_str,
      f_fmt = (\<lambda>spec x. rat_str x),
      visa_connect = True,
      visa_write = (\<lambda>h c. Some (int (length c) + 2)),
      visa_query = (\<lambda>h c. if c = '':ADER?''
                            then (case polls of
                                    None \<Rightarrow> Some ''0''
                                  | Some n \<Rightarrow> Some (if n \<le> length (filter is_ader h)
                                                      then ''1'' else ''0''))
                            else Some ''1''),
      clock = clk,
      now_str = (\<lambda>h. ''2024-01-01 00:00:00''),
      os_denies = (\<lambda>p m. False)\<rparr>"

definition sim_args :: "rat args" where
  "sim_args =
     \<lparr>arg_numEvents = latin_1 ''1000'', arg_runNumber = latin_1 ''7'',
      arg_sampleRate = latin_1 ''4'', arg_horizontalWindow = latin_1 ''200'',
      arg_trigCh = ''1'', arg_trig = - 23 / 10000,
      arg_trigSlope = ''NEGative'', arg_vScale1 = 5 / 1000, arg_vPos1 = 16 / 1000,
      arg_timeoffset = - 53, arg_save = 1, arg_timeout = - 1\<rparr>"

definition tick :: "event list \<Rightarrow> rat" where \<comment> \<open>a clock that advances with every event\<close>
  "tick h = of_nat (length h)"

definition frozen :: "event list \<Rightarrow> rat" where \<comment> \<open>a clock too coarse to see the run\<close>
  "frozen h = 0"

text \<open>A statement that returns from every world.\<close>

definition returns :: "'a prog \<Rightarrow> bool" where
  "returns m = (\<forall>w. \<exists>x w'. m w = (Done x, w'))"

definition starts_with :: "string \<Rightarrow> string \<Rightarrow> bool" where
  "starts_with p s = (take (length p) s = p)"

text \<open>The trace of a run that returned, from the responses it was given.\<close>

definition run_events ::
  "'f env \<Rightarrow> 'f globals \<Rightarrow> string \<Rightarrow> string list \<Rightarrow> string \<Rightarrow> int \<Rightarrow> string list \<Rightarrow> string
     \<Rightarrow> string \<Rightarrow> string \<Rightarrow> event list" where
  "run_events env g r0 ps r n rs rl r1 r2 =
     [VisaOpen ''TCPIP::192.168.0.182::INSTR'', VisaQuery ''*idn?'' r0, Print r0]
     @ map Print ps
     @ (if runNumberParam (vars g) = - 1
        then [FileOpen RunNumberFile ModeR, FileRead RunNumberFile, FileClose RunNumberFile]
        else [])
     @ announce_events (vars g) (runNumber g)
     @ logbook_events (vars g) (runNumber g)
     @ horizontal_events env (vars g) r
     @ bandwidth_events
     @ vertical_events env (vars g)
     @ trigger_events env (vars g)
     @ status_events [''busy'']
     @ arm_events n
     @ poll_events rs (end_early g) rl
     @ status_events [''writing'', nl]
     @ [Print (report_line env (end_early g) (duration g) (trigRate g))]
     @ export_events (savewaves (vars g)) (runNumber g) r1 r2
     @ status_events [''ready'', nl]
     @ [VisaClose]"

text \<open>A statement that leaves the content of the file \<open>p\<close> as it was, however it ends.\<close>

definition keeps :: "string \<Rightarrow> 'a prog \<Rightarrow> bool" where
  "keeps p m = (\<forall>w. files (snd (m w)) p = files w p)"

text \<open>A statement that never ends in the exception \<open>e\<close>.\<close>

definition avoids :: "pyerror \<Rightarrow> 'a prog \<Rightarrow> bool" where
  "avoids e m = (\<forall>w. fst (m w) \<noteq> Raised e)"

text \<open>
  The trace of a run that has published \<^verbatim>\<open>writing\<close> and not yet printed its report,
  from the responses it was given.
\<close>

definition writing_events ::
  "'f env \<Rightarrow> 'f vars \<Rightarrow> int \<Rightarrow> bool \<Rightarrow> string \<Rightarrow> string list \<Rightarrow> string \<Rightarrow> int \<Rightarrow> string list
     \<Rightarrow> string \<Rightarrow> event list" where
  "writing_events env v rn ee r0 ps r n rs rl =
     [VisaOpen ''TCPIP::192.168.0.182::INSTR'', VisaQuery ''*idn?'' r0, Print r0]
     @ map Print ps
     @ (if runNumberParam v = - 1
        then [FileOpen RunNumberFile ModeR, FileRead RunNumberFile, FileClose RunNumberFile]
        else [])
     @ announce_events v rn
     @ logbook_events v rn
     @ horizontal_events env v r
     @ bandwidth_events
     @ vertical_events env v
     @ trigger_events env v
     @ status_events [''busy'']
     @ arm_events n
     @ poll_events rs ee rl
     @ status_events [''writing'', nl]"

subsection \<open>When a statement returns\<close>

lemma ret_Done: "ret x w = (Done y, w') \<longleftrightarrow> y = x \<and> w' = w"
  by (auto simp: ret_def)

lemma raise_Done: "raise e w = (Done y, w') \<longleftrightarrow> False"
  by (simp add: raise_def)

lemma bind_Done:
  "bind m f w = (Done y, w') \<longleftrightarrow> (\<exists>x w1. m w = (Done x, w1) \<and> f x w1 = (Done y, w'))"
  by (auto simp: bind_def split: prod.splits outcome.splits)

lemma seq_Nil_Done: "seq [] w = (Done u, w') \<longleftrightarrow> w' = w"
  by (auto simp: ret_def)

lemma seq_Cons_Done:
  "seq (m # ms) w = (Done u, w') \<longleftrightarrow> (\<exists>w1. m w = (Done (), w1) \<and> seq ms w1 = (Done (), w'))"
  by (auto simp: bind_Done)

lemma emit_Done: "emit e w = (Done u, w') \<longleftrightarrow> w' = w\<lparr>trace := trace w @ [e]\<rparr>"
  by (auto simp: emit_def)

lemma time_time_Done: "time_time env w = (Done t, w') \<longleftrightarrow> t = clock env (trace w) \<and> w' = w"
  by (auto simp: time_time_def)

lemma datetime_now_Done:
  "datetime_now env w = (Done d, w') \<longleftrightarrow> d = now_str env (trace w) \<and> w' = w"
  by (auto simp: datetime_now_def)

lemma open_resource_Done:
  "open_resource env addr w = (Done u, w') \<longleftrightarrow>
     visa_connect env \<and> w' = w\<lparr>trace := trace w @ [VisaOpen addr]\<rparr>"
  by (auto simp: open_resource_def emit_def raise_def)

lemma dpo_write_count_Done:
  "dpo_write_count env c w = (Done n, w') \<longleftrightarrow>
     visa_write env (trace w) c = Some n \<and> w' = w\<lparr>trace := trace w @ [VisaWrite c]\<rparr>"
  by (auto simp: dpo_write_count_def split: option.splits)

lemma dpo_write_Done:
  "dpo_write env c w = (Done u, w') \<longleftrightarrow>
     visa_write env (trace w) c \<noteq> None \<and> w' = w\<lparr>trace := trace w @ [VisaWrite c]\<rparr>"
  by (auto simp: dpo_write_def bind_Done dpo_write_count_Done ret_Done)

lemma dpo_query_Done:
  "dpo_query env c w = (Done r, w') \<longleftrightarrow>
     visa_query env (trace w) c = Some r \<and> w' = w\<lparr>trace := trace w @ [VisaQuery c r]\<rparr>"
  by (auto simp: dpo_query_def split: option.splits)

lemma py_open_W_Done:
  "py_open env p ModeW w = (Done u, w') \<longleftrightarrow>
     \<not> os_denies env p ModeW \<and>
     w' = w\<lparr>trace := trace w @ [FileOpen p ModeW], files := (files w)(p \<mapsto> [])\<rparr>"
  by (auto simp: py_open_def)

lemma py_open_A_Done:
  "py_open env p ModeAPlus w = (Done u, w') \<longleftrightarrow>
     \<not> os_denies env p ModeAPlus \<and>
     w' = w\<lparr>trace := trace w @ [FileOpen p ModeAPlus],
            files := (files w)(p \<mapsto> (case files w p of None \<Rightarrow> [] | Some c \<Rightarrow> c))\<rparr>"
  by (auto simp: py_open_def)

lemma py_open_R_Done:
  "py_open env p ModeR w = (Done u, w') \<longleftrightarrow>
     \<not> os_denies env p ModeR \<and> files w p \<noteq> None \<and>
     w' = w\<lparr>trace := trace w @ [FileOpen p ModeR]\<rparr>"
  by (auto simp: py_open_def split: option.splits)

lemma py_read_Done:
  "py_read p w = (Done s, w') \<longleftrightarrow>
     s = (case files w p of None \<Rightarrow> [] | Some c \<Rightarrow> c) \<and>
     w' = w\<lparr>trace := trace w @ [FileRead p]\<rparr>"
  by (auto simp: py_read_def)

lemma py_write_Done:
  "py_write p s w = (Done u, w') \<longleftrightarrow>
     w' = w\<lparr>trace := trace w @ [FileWrite p s],
            files := (files w)(p \<mapsto> (case files w p of None \<Rightarrow> [] | Some c \<Rightarrow> c) @ s)\<rparr>"
  by (auto simp: py_write_def)

lemmas Done_simps =
  ret_Done raise_Done bind_Done seq_Nil_Done seq_Cons_Done emit_Done time_time_Done
  datetime_now_Done open_resource_Done dpo_write_count_Done dpo_write_Done dpo_query_Done
  py_open_W_Done py_open_A_Done py_open_R_Done py_read_Done py_write_Done
  py_print_def sleep_def py_close_def dpo_close_def

subsection \<open>What each part of the script leaves in the trace\<close>

lemma connect_Done:
  assumes "connect env w = (Done u, w')"
  shows "\<exists>r. trace w' = trace w @
           [VisaOpen ''TCPIP::192.168.0.182::INSTR'', VisaQuery ''*idn?'' r, Print r]"
    and "files w' = files w"
  using assms unfolding connect_def by (auto simp: Done_simps)

lemma read_args_Done:
  assumes "read_args env a w = (Done v, w')"
  shows "\<exists>ps. trace w' = trace w @ map Print ps"
    and "files w' = files w"
    and "py_int env (arg_runNumber a) = Some (runNumberParam v)"
    and "py_int env (arg_numEvents a) = Some (numEvents v)"
    and "hScale v = f_lit env ''1e-6''"
    and "timeoffset v = f_mul env (arg_timeoffset a) (f_lit env ''1e-9'')"
    and "trigCh v = (if arg_trigCh a \<noteq> ''AUX'' then ''CHANnel'' @ arg_trigCh a else arg_trigCh a)"
    and "trigLevel v = arg_trig a" and "triggerSlope v = arg_trigSlope a"
    and "vScale_ch1 v = arg_vScale1 a" and "vPos_ch1 v = arg_vPos1 a"
    and "savewaves v = arg_save a" and "timeout v = arg_timeout a"
proof -
  from assms obtain n sr m where
    n: "py_int env (arg_runNumber a) = Some n" and sr: "f_of_str env (arg_sampleRate a) = Some sr"
    and m: "py_int env (arg_numEvents a) = Some m"
    unfolding read_args_def by (auto simp: Let_def Done_simps split: option.splits)
  from assms n sr m have
    v: "v = \<lparr>trigCh = (if arg_trigCh a \<noteq> ''AUX'' then ''CHANnel'' @ arg_trigCh a else arg_trigCh a),
            runNumberParam = n, trigLevel = arg_trig a, triggerSlope = arg_trigSlope a,
            timeoffset = f_mul env (arg_timeoffset a) (f_lit env ''1e-9''),
            savewaves = arg_save a, timeout = arg_timeout a,
            samplingrate = f_mul env sr (f_lit env ''1e+9''), hScale = f_lit env ''1e-6'',
            numEvents = m,
            numPoints = f_mul env (f_mul env sr (f_lit env ''1e+9'')) (f_lit env ''1e-6''),
            vScale_ch1 = arg_vScale1 a, vPos_ch1 = arg_vPos1 a,
            date = now_str env (trace w')\<rparr>"
    and t: "trace w' = trace w @ map Print
        [''timeoffset is  '' @ f_str env (f_mul env (arg_timeoffset a) (f_lit env ''1e-9'')),
         str_int (arg_save a),
         ''timeout is  '' @ f_str env (arg_timeout a),
         ''numPoints is =  '' @ f_str env (f_mul env (f_mul env sr (f_lit env ''1e+9'')) (f_lit env ''1e-6'')),
         ''samplerate is =  '' @ f_str env (f_mul env sr (f_lit env ''1e+9''))]"
    and f: "files w' = files w"
    unfolding read_args_def by (auto simp: Let_def Done_simps)
  from t show "\<exists>ps. trace w' = trace w @ map Print ps" by blast
  from f show "files w' = files w" .
  from v n m show "py_int env (arg_runNumber a) = Some (runNumberParam v)"
    "py_int env (arg_numEvents a) = Some (numEvents v)"
    "hScale v = f_lit env ''1e-6''"
    "timeoffset v = f_mul env (arg_timeoffset a) (f_lit env ''1e-9'')"
    "trigCh v = (if arg_trigCh a \<noteq> ''AUX'' then ''CHANnel'' @ arg_trigCh a else arg_trigCh a)"
    "trigLevel v = arg_trig a" "triggerSlope v = arg_trigSlope a"
    "vScale_ch1 v = arg_vScale1 a" "vPos_ch1 v = arg_vPos1 a"
    "savewaves v = arg_save a" "timeout v = arg_timeout a"
    by simp_all
qed


lemma configure_run_number_Done:
  assumes "configure_run_number env v w = (Done rn, w')"
  shows "files w' = files w"
    and "runNumberParam v \<noteq> - 1 \<Longrightarrow> rn = runNumberParam v \<and> w' = w"
    and "runNumberParam v = - 1 \<Longrightarrow>
           \<not> os_denies env RunNumberFile ModeR \<and>
           (\<exists>c t. files w RunNumberFile = Some c \<and> locale_decode env c = Some t
                  \<and> py_int env (universal_newlines t) = Some rn) \<and>
           trace w' = trace w @
             [FileOpen RunNumberFile ModeR, FileRead RunNumberFile, FileClose RunNumberFile]"
  using assms unfolding configure_run_number_def
  by (auto simp: Done_simps split: if_splits option.splits)

lemma announce_Done:
  assumes "announce v rn w = (Done u, w')"
  shows "trace w' = trace w @ announce_events v rn" and "files w' = files w"
  using assms unfolding announce_def announce_events_def by (auto simp: Done_simps)

lemma open_logbook_Done:
  assumes "open_logbook env v rn w = (Done u, w')"
  shows "trace w' = trace w @ logbook_events v rn"
  using assms unfolding open_logbook_def logbook_events_def by (auto simp: Done_simps)

lemma horizontal_setup_Done:
  assumes "horizontal_setup env v w = (Done u, w')"
  shows "\<exists>r. trace w' = trace w @ horizontal_events env v r"
  using assms unfolding horizontal_setup_def horizontal_events_def
  by (clarsimp simp: Done_simps)

lemma bandwidth_setup_Done:
  assumes "bandwidth_setup env w = (Done u, w')"
  shows "trace w' = trace w @ bandwidth_events"
  using assms unfolding bandwidth_setup_def bandwidth_events_def by (clarsimp simp: Done_simps)

lemma vertical_setup_Done:
  assumes "vertical_setup env v w = (Done u, w')"
  shows "trace w' = trace w @ vertical_events env v"
  using assms unfolding vertical_setup_def vertical_events_def by (clarsimp simp: Done_simps)

lemma trigger_setup_Done:
  assumes "trigger_setup env v w = (Done u, w')"
  shows "trace w' = trace w @ trigger_events env v"
  using assms unfolding trigger_setup_def trigger_events_def
  by (clarsimp simp: Done_simps Let_def)

lemma status_busy_Done:
  assumes "status_busy env w = (Done u, w')"
  shows "trace w' = trace w @ status_events [''busy'']"
    and "files w' = (files w)(run_log_path \<mapsto> ''busy'')"
  using assms unfolding status_busy_def status_events_def by (auto simp: Done_simps)

lemma status_writing_Done:
  assumes "status_writing env w = (Done u, w')"
  shows "trace w' = trace w @ status_events [''writing'', nl]"
    and "files w' = (files w)(run_log_path \<mapsto> ''writing'' @ nl)"
  using assms unfolding status_writing_def status_events_def by (auto simp: Done_simps)

lemma status_ready_Done:
  assumes "status_ready env w = (Done u, w')"
  shows "trace w' = trace w @ status_events [''ready'', nl]"
    and "files w' = (files w)(run_log_path \<mapsto> ''ready'' @ nl)"
  using assms unfolding status_ready_def status_events_def by (auto simp: Done_simps)

lemma misses_Cons: "misses (r # rs) = VisaQuery '':ADER?'' r # Sleep (1 / 10) # misses rs"
  by (simp add: misses_def)

lemma poll_Done:
  assumes "poll k env t s w = (Done ee, w')"
  shows "\<exists>rs. (\<forall>r \<in> set rs. \<exists>n. py_int env (latin_1 r) = Some n \<and> n \<noteq> 1) \<and>
           (if ee then rs \<noteq> [] \<and> f_gt env t (f_lit env ''0'') \<and>
                       trace w' = trace w @ misses rs @ [VisaWrite '':STOP;*OPC?'']
            else \<exists>r. py_int env (latin_1 r) = Some 1 \<and>
                   trace w' = trace w @ misses rs
                     @ [VisaQuery '':ADER?'' r, Print ''Acquisition complete''])"
  using assms
proof (induction k arbitrary: w)
  case 0
  then show ?case by simp
next
  case (Suc k)
  from Suc.prems obtain r n w1 where
    q: "dpo_query env '':ADER?'' w = (Done r, w1)" and n: "py_int env (latin_1 r) = Some n"
    and rest: "(if n = 1 then bind (py_print ''Acquisition complete'') (\<lambda>_. ret False)
         else bind (sleep (1 / 10)) (\<lambda>_.
           if f_gt env t (f_lit env ''0'') then
             bind (time_time env) (\<lambda>now.
             if f_gt env (f_sub env now s) t then
               bind (dpo_write env '':STOP;*OPC?'') (\<lambda>_. ret True)
             else poll k env t s)
           else poll k env t s)) w1 = (Done ee, w')"
    by (auto simp: bind_Done raise_Done split: option.splits)
  from q have w1: "trace w1 = trace w @ [VisaQuery '':ADER?'' r]"
    by (auto simp: dpo_query_Done)
  show ?case
  proof (cases "n = 1")
    case True
    with rest w1 n have "\<not> ee" "trace w' = trace w @ misses [] @ [VisaQuery '':ADER?'' r, Print ''Acquisition complete'']"
      by (auto simp: Done_simps misses_def)
    with n True show ?thesis
      by (intro exI[of _ "[]"]) auto
  next
    case False
    define w2 where "w2 = w1\<lparr>trace := trace w1 @ [Sleep (1 / 10)]\<rparr>"
    have w2: "trace w2 = trace w @ misses [r]"
      by (simp add: w2_def w1 misses_def)
    from rest False consider
      (stop) "f_gt env t (f_lit env ''0'')" "ee" "trace w' = trace w2 @ [VisaWrite '':STOP;*OPC?'']"
      | (again) "poll k env t s w2 = (Done ee, w')"
      by (auto simp: Done_simps w2_def split: if_splits)
    then show ?thesis
    proof cases
      case stop
      with w2 n False show ?thesis
        by (intro exI[of _ "[r]"]) auto
    next
      case again
      from Suc.IH[OF again] obtain rs where
        rs: "\<forall>r \<in> set rs. \<exists>n. py_int env (latin_1 r) = Some n \<and> n \<noteq> 1"
        and tr: "if ee then rs \<noteq> [] \<and> f_gt env t (f_lit env ''0'') \<and>
                       trace w' = trace w2 @ misses rs @ [VisaWrite '':STOP;*OPC?'']
            else \<exists>r. py_int env (latin_1 r) = Some 1 \<and>
                   trace w' = trace w2 @ misses rs
                     @ [VisaQuery '':ADER?'' r, Print ''Acquisition complete'']"
        by blast
      from rs n False have "\<forall>r \<in> set (r # rs). \<exists>n. py_int env (latin_1 r) = Some n \<and> n \<noteq> 1"
        by auto
      moreover from tr w2 have "if ee then r # rs \<noteq> [] \<and> f_gt env t (f_lit env ''0'') \<and>
                       trace w' = trace w @ misses (r # rs) @ [VisaWrite '':STOP;*OPC?'']
            else \<exists>r'. py_int env (latin_1 r') = Some 1 \<and>
                   trace w' = trace w @ misses (r # rs)
                     @ [VisaQuery '':ADER?'' r', Print ''Acquisition complete'']"
        by (auto simp: misses_def split: if_splits)
      ultimately show ?thesis by blast
    qed
  qed
qed


lemma acquire_Done:
  assumes "acquire k env v w = (Done (t0, t1, ee), w')"
  shows "\<exists>n rs r. (\<forall>r \<in> set rs. \<exists>n. py_int env (latin_1 r) = Some n \<and> n \<noteq> 1) \<and>
           (if ee then rs \<noteq> [] \<and> f_gt env (timeout v) (f_lit env ''0'')
            else py_int env (latin_1 r) = Some 1) \<and>
           trace w' = trace w @ arm_events n @ poll_events rs ee r \<and>
           t0 = clock env (trace w @ arm_events n) \<and> t1 = clock env (trace w')"
proof -
  from assms obtain n w1 where
    p: "poll k env (timeout v) (clock env (trace w1)) w1 = (Done ee, w')"
    and w1: "trace w1 = trace w @ arm_events n"
    and t: "t0 = clock env (trace w1)" "t1 = clock env (trace w')"
    unfolding acquire_def arm_events_def by (auto simp: Done_simps)
  from poll_Done[OF p] w1 t show ?thesis
    unfolding poll_events_def by (cases ee) auto
qed

lemma report_Done:
  assumes "report env v t0 t1 ee w = (Done (d, tr), w')"
  shows "trace w' = trace w @ [Print (report_line env ee d tr)]"
    and "d = f_sub env t1 t0" and "\<not> f_is_zero env d"
    and "\<exists>ne. f_of_int env (numEvents v) = Some ne \<and> tr = f_div env ne d"
    and "files w' = files w"
  using assms unfolding report_def report_line_def
  by (auto simp: Done_simps Let_def split: option.splits if_splits)

lemma export_Done:
  assumes "export env v rn w = (Done u, w')"
  shows "\<exists>r1 r2. trace w' = trace w @ export_events (savewaves v) rn r1 r2"
    and "files w' = files w"
  using assms unfolding export_def export_events_def
  by (auto simp: Done_simps split: if_splits)

text \<open>The whole trace of a run that returned.\<close>

lemma script_steps:
  assumes "script k env a w0 = (Done g, w)"
  shows "\<exists>w1 w2 w3 w4 w5 w6 w7 w8 w9 w10 w11 w12 w13 w14 w15.
      connect env w0 = (Done (), w1)
    \<and> read_args env a w1 = (Done (vars g), w2)
    \<and> configure_run_number env (vars g) w2 = (Done (runNumber g), w3)
    \<and> announce (vars g) (runNumber g) w3 = (Done (), w4)
    \<and> open_logbook env (vars g) (runNumber g) w4 = (Done (), w5)
    \<and> horizontal_setup env (vars g) w5 = (Done (), w6)
    \<and> bandwidth_setup env w6 = (Done (), w7)
    \<and> vertical_setup env (vars g) w7 = (Done (), w8)
    \<and> trigger_setup env (vars g) w8 = (Done (), w9)
    \<and> status_busy env w9 = (Done (), w10)
    \<and> acquire k env (vars g) w10 = (Done (start g, end' g, end_early g), w11)
    \<and> status_writing env w11 = (Done (), w12)
    \<and> report env (vars g) (start g) (end' g) (end_early g) w12
        = (Done (duration g, trigRate g), w13)
    \<and> export env (vars g) (runNumber g) w13 = (Done (), w14)
    \<and> status_ready env w14 = (Done (), w15)
    \<and> dpo_close w15 = (Done (), w)"
  using assms unfolding script_def
  by (auto simp: bind_Done seq_Cons_Done seq_Nil_Done ret_Done split: prod.splits)

lemma script_Done:
  assumes "script k env a w0 = (Done g, w)"
  shows "\<exists>r0 ps r n rs rl r1 r2.
           trace w = trace w0
             @ [VisaOpen ''TCPIP::192.168.0.182::INSTR'', VisaQuery ''*idn?'' r0, Print r0]
             @ map Print ps
             @ (if runNumberParam (vars g) = - 1
                then [FileOpen RunNumberFile ModeR, FileRead RunNumberFile,
                      FileClose RunNumberFile]
                else [])
             @ announce_events (vars g) (runNumber g)
             @ logbook_events (vars g) (runNumber g)
             @ horizontal_events env (vars g) r
             @ bandwidth_events
             @ vertical_events env (vars g)
             @ trigger_events env (vars g)
             @ status_events [''busy'']
             @ arm_events n
             @ poll_events rs (end_early g) rl
             @ status_events [''writing'', nl]
             @ [Print (report_line env (end_early g) (duration g) (trigRate g))]
             @ export_events (savewaves (vars g)) (runNumber g) r1 r2
             @ status_events [''ready'', nl]
             @ [VisaClose]
           \<and> (\<forall>r \<in> set rs. \<exists>n. py_int env (latin_1 r) = Some n \<and> n \<noteq> 1)
           \<and> (if end_early g then rs \<noteq> [] \<and> f_gt env (timeout (vars g)) (f_lit env ''0'')
               else py_int env (latin_1 rl) = Some 1)"
proof -
  from script_steps[OF assms] obtain w1 w2 w3 w4 w5 w6 w7 w8 w9 w10 w11 w12 w13 w14 w15 where
    s1: "connect env w0 = (Done (), w1)"
    and s2: "read_args env a w1 = (Done (vars g), w2)"
    and s3: "configure_run_number env (vars g) w2 = (Done (runNumber g), w3)"
    and s4: "announce (vars g) (runNumber g) w3 = (Done (), w4)"
    and s5: "open_logbook env (vars g) (runNumber g) w4 = (Done (), w5)"
    and s6: "horizontal_setup env (vars g) w5 = (Done (), w6)"
    and s7: "bandwidth_setup env w6 = (Done (), w7)"
    and s8: "vertical_setup env (vars g) w7 = (Done (), w8)"
    and s9: "trigger_setup env (vars g) w8 = (Done (), w9)"
    and s10: "status_busy env w9 = (Done (), w10)"
    and s11: "acquire k env (vars g) w10 = (Done (start g, end' g, end_early g), w11)"
    and s12: "status_writing env w11 = (Done (), w12)"
    and s13: "report env (vars g) (start g) (end' g) (end_early g) w12
        = (Done (duration g, trigRate g), w13)"
    and s14: "export env (vars g) (runNumber g) w13 = (Done (), w14)"
    and s15: "status_ready env w14 = (Done (), w15)"
    and s16: "dpo_close w15 = (Done (), w)"
    by blast
  from connect_Done(1)[OF s1] obtain r0 where
    t1: "trace w1 = trace w0
       @ [VisaOpen ''TCPIP::192.168.0.182::INSTR'', VisaQuery ''*idn?'' r0, Print r0]"
    by blast
  from read_args_Done(1)[OF s2] obtain ps where t2: "trace w2 = trace w1 @ map Print ps"
    by blast
  have t3: "trace w3 = trace w2 @
      (if runNumberParam (vars g) = - 1
       then [FileOpen RunNumberFile ModeR, FileRead RunNumberFile, FileClose RunNumberFile]
       else [])"
    using configure_run_number_Done(2,3)[OF s3] by (cases "runNumberParam (vars g) = - 1") auto
  note t4 = announce_Done(1)[OF s4]
  note t5 = open_logbook_Done[OF s5]
  from horizontal_setup_Done[OF s6] obtain r where
    t6: "trace w6 = trace w5 @ horizontal_events env (vars g) r" by blast
  note t7 = bandwidth_setup_Done[OF s7]
  note t8 = vertical_setup_Done[OF s8]
  note t9 = trigger_setup_Done[OF s9]
  note t10 = status_busy_Done(1)[OF s10]
  from acquire_Done[OF s11] obtain n rs rl where
    rs: "\<forall>r \<in> set rs. \<exists>n. py_int env (latin_1 r) = Some n \<and> n \<noteq> 1"
    and ee: "if end_early g then rs \<noteq> [] \<and> f_gt env (timeout (vars g)) (f_lit env ''0'')
             else py_int env (latin_1 rl) = Some 1"
    and t11: "trace w11 = trace w10 @ arm_events n @ poll_events rs (end_early g) rl"
    by blast
  note t12 = status_writing_Done(1)[OF s12]
  note t13 = report_Done(1)[OF s13]
  from export_Done(1)[OF s14] obtain r1 r2 where
    t14: "trace w14 = trace w13 @ export_events (savewaves (vars g)) (runNumber g) r1 r2"
    by blast
  note t15 = status_ready_Done(1)[OF s15]
  from s16 have t16: "trace w = trace w15 @ [VisaClose]"
    by (simp add: dpo_close_def emit_Done)
  have "trace w = trace w0
             @ [VisaOpen ''TCPIP::192.168.0.182::INSTR'', VisaQuery ''*idn?'' r0, Print r0]
             @ map Print ps
             @ (if runNumberParam (vars g) = - 1
                then [FileOpen RunNumberFile ModeR, FileRead RunNumberFile,
                      FileClose RunNumberFile]
                else [])
             @ announce_events (vars g) (runNumber g)
             @ logbook_events (vars g) (runNumber g)
             @ horizontal_events env (vars g) r
             @ bandwidth_events
             @ vertical_events env (vars g)
             @ trigger_events env (vars g)
             @ status_events [''busy'']
             @ arm_events n
             @ poll_events rs (end_early g) rl
             @ status_events [''writing'', nl]
             @ [Print (report_line env (end_early g) (duration g) (trigRate g))]
             @ export_events (savewaves (vars g)) (runNumber g) r1 r2
             @ status_events [''ready'', nl]
             @ [VisaClose]"
    unfolding t16 t15 t14 t13 t12 t11 t10 t9 t8 t7 t6 t5 t4 t3 t2 t1 by (simp only: append_assoc)
  with rs ee show ?thesis by blast
qed

subsection \<open>When the script returns\<close>

lemma returnsD: "returns m \<Longrightarrow> \<exists>x w'. m w = (Done x, w')"
  by (simp add: returns_def)

lemma returns_ret: "returns (ret x)"
  by (simp add: returns_def ret_def)

lemma returns_emit: "returns (emit e)"
  by (simp add: returns_def emit_def)

lemma returns_bind: "returns m \<Longrightarrow> (\<And>x. returns (f x)) \<Longrightarrow> returns (bind m f)"
  unfolding returns_def bind_Done by metis

lemma returns_seq: "(\<And>m. m \<in> set ms \<Longrightarrow> returns m) \<Longrightarrow> returns (seq ms)"
proof (induction ms)
  case Nil
  show ?case by (simp add: returns_ret)
next
  case (Cons m ms)
  then show ?case by (simp add: returns_bind)
qed

lemma returns_py_write: "returns (py_write p s)"
  by (simp add: returns_def py_write_def)

lemma returns_dpo_write:
  "(\<And>h c. visa_write env h c \<noteq> None) \<Longrightarrow> returns (dpo_write env cmd)"
  unfolding returns_def dpo_write_Done by simp

lemma returns_dpo_write_count:
  "(\<And>h c. visa_write env h c \<noteq> None) \<Longrightarrow> returns (dpo_write_count env cmd)"
  unfolding returns_def dpo_write_count_Done by auto

lemma returns_dpo_query:
  "(\<And>h c. visa_query env h c \<noteq> None) \<Longrightarrow> returns (dpo_query env cmd)"
  unfolding returns_def dpo_query_Done by auto

lemma returns_py_open:
  "(\<And>p m. \<not> os_denies env p m) \<Longrightarrow> mode \<noteq> ModeR \<Longrightarrow> returns (py_open env p mode)"
  by (cases mode) (simp_all add: returns_def py_open_def)

lemmas returns_intros =
  returns_ret returns_emit returns_bind returns_py_write returns_dpo_write
  returns_dpo_write_count returns_dpo_query returns_py_open

text \<open>
  With an instrument and a file system that accept everything, every part outside the
  loop returns.
\<close>

lemma setup_returns:
  assumes vw: "\<And>h c. visa_write env h c \<noteq> None"
    and vq: "\<And>h c. visa_query env h c \<noteq> None"
    and os: "\<And>p m. \<not> os_denies env p m"
  shows "returns (seq [announce v rn, open_logbook env v rn, horizontal_setup env v,
                       bandwidth_setup env, vertical_setup env v, trigger_setup env v,
                       status_busy env])"
proof -
  have 1: "returns (announce v rn)"
    unfolding announce_def py_print_def
    by (rule returns_seq) (auto intro!: returns_intros)
  have 2: "returns (open_logbook env v rn)"
    unfolding open_logbook_def
    by (rule returns_seq) (auto intro!: returns_intros os)
  have 3: "returns (horizontal_setup env v)"
    unfolding horizontal_setup_def py_print_def
    by (rule returns_seq) (auto intro!: returns_intros vw vq)
  have 4: "returns (bandwidth_setup env)"
    unfolding bandwidth_setup_def py_print_def
    by (rule returns_seq) (auto intro!: returns_intros vw)
  have 5: "returns (vertical_setup env v)"
    unfolding vertical_setup_def py_print_def
    by (rule returns_seq) (auto intro!: returns_intros vw)
  have 6: "returns (trigger_setup env v)"
    unfolding trigger_setup_def py_print_def py_close_def Let_def
    by (rule returns_seq) (auto intro!: returns_intros vw)
  have 7: "returns (status_busy env)"
    unfolding status_busy_def py_close_def
    by (rule returns_seq) (auto intro!: returns_intros os)
  show ?thesis
    by (rule returns_seq) (auto simp: 1 2 3 4 5 6 7)
qed

lemma status_writing_returns:
  assumes os: "\<And>p m. \<not> os_denies env p m"
  shows "returns (status_writing env)"
  unfolding status_writing_def py_close_def
  by (rule returns_seq) (auto intro!: returns_intros os)

lemma finish_returns:
  assumes vw: "\<And>h c. visa_write env h c \<noteq> None"
    and vq: "\<And>h c. visa_query env h c \<noteq> None"
    and os: "\<And>p m. \<not> os_denies env p m"
  shows "returns (seq [export env v rn, status_ready env, dpo_close])"
proof -
  have 1: "returns (export env v rn)"
  proof (cases "savewaves v = 0")
    case True
    then show ?thesis unfolding export_def by (simp add: returns_ret)
  next
    case False
    have "returns (seq [dpo_write env '':DISK:SEGMented ALL'',
             bind (dpo_query env ''*OPC?'') py_print,
             py_print ''Ready to save all segments'',
             sleep (1 / 2),
             dpo_write env c,
             bind (dpo_query env ''*OPC?'') py_print,
             py_print ''Saved Channel 1 waveform'',
             sleep 1])" for c
      unfolding py_print_def sleep_def
      by (rule returns_seq) (auto intro!: returns_intros vw vq)
    with False show ?thesis unfolding export_def by simp
  qed
  have 2: "returns (status_ready env)"
    unfolding status_ready_def py_close_def
    by (rule returns_seq) (auto intro!: returns_intros os)
  have 3: "returns dpo_close"
    by (simp add: dpo_close_def returns_emit)
  show ?thesis
    by (rule returns_seq) (auto simp: 1 2 3)
qed

lemma acquire_completes:
  assumes vw: "\<And>h c. visa_write env h c \<noteq> None"
    and hit: "\<And>h. \<exists>r. visa_query env h '':ADER?'' = Some r \<and> py_int env (latin_1 r) = Some 1"
  shows "\<exists>n r w'. acquire (Suc k) env v w =
           (Done (clock env (trace w @ arm_events n),
                  clock env (trace w @ arm_events n @ poll_events [] False r), False), w')"
proof -
  obtain n where n: "visa_write env (trace w @ [Sleep 2]) '':CDISplay'' = Some n"
    using vw by (meson option.exhaust)
  define h where "h = trace w @ arm_events n"
  obtain r where r: "visa_query env h '':ADER?'' = Some r" "py_int env (latin_1 r) = Some 1"
    using hit by blast
  have "acquire (Suc k) env v w =
           (Done (clock env h, clock env (h @ poll_events [] False r), False),
            w\<lparr>trace := h @ poll_events [] False r\<rparr>)"
    unfolding acquire_def
    using n r vw
    by (simp add: bind_def sleep_def emit_def dpo_write_count_def py_print_def dpo_write_def
        ret_def time_time_def dpo_query_def h_def arm_events_def poll_events_def misses_def
        split: option.splits)
  then show ?thesis unfolding h_def by auto
qed

lemma acquire_times_out:
  assumes vw: "\<And>h c. visa_write env h c \<noteq> None"
    and miss: "\<And>h. \<exists>r n. visa_query env h '':ADER?'' = Some r
                 \<and> py_int env (latin_1 r) = Some n \<and> n \<noteq> 1"
    and pos: "f_gt env (timeout v) (f_lit env ''0'')"
    and late: "\<And>h es. es \<noteq> [] \<Longrightarrow> f_gt env (f_sub env (clock env (h @ es)) (clock env h)) (timeout v)"
  shows "\<exists>n r w'. acquire (Suc k) env v w =
           (Done (clock env (trace w @ arm_events n),
                  clock env (trace w @ arm_events n @ poll_events [r] True []), True), w')"
proof -
  obtain n where n: "visa_write env (trace w @ [Sleep 2]) '':CDISplay'' = Some n"
    using vw by (meson option.exhaust)
  define h where "h = trace w @ arm_events n"
  obtain r m where r: "visa_query env h '':ADER?'' = Some r" "py_int env (latin_1 r) = Some m" "m \<noteq> 1"
    using miss by blast
  have l: "f_gt env (f_sub env (clock env (h @ [VisaQuery '':ADER?'' r, Sleep (1 / 10)]))
             (clock env h)) (timeout v)"
    by (rule late) simp
  have "acquire (Suc k) env v w =
           (Done (clock env h, clock env (h @ poll_events [r] True []), True),
            w\<lparr>trace := h @ poll_events [r] True []\<rparr>)"
    unfolding acquire_def
    using n r vw pos l
    by (simp add: bind_def sleep_def emit_def dpo_write_count_def py_print_def dpo_write_def
        ret_def time_time_def dpo_query_def h_def arm_events_def poll_events_def misses_def
        split: option.splits)
  then show ?thesis unfolding h_def by auto
qed

lemma script_to_report:
  assumes vc: "visa_connect env"
    and vw: "\<And>h c. visa_write env h c \<noteq> None"
    and vq: "\<And>h c. visa_query env h c \<noteq> None"
    and os: "\<And>p m. \<not> os_denies env p m"
    and rn: "py_int env (arg_runNumber a) = Some rn"
    and counter: "rn = - 1 \<Longrightarrow> \<exists>c t n. files w0 RunNumberFile = Some c \<and> locale_decode env c = Some t
                \<and> py_int env (universal_newlines t) = Some n"
    and sr: "f_of_str env (arg_sampleRate a) \<noteq> None"
    and ne: "py_int env (arg_numEvents a) = Some n"
    and acq: "\<And>v w. timeout v = arg_timeout a \<Longrightarrow>
               \<exists>t0 t1 w'. acquire k env v w = (Done (t0, t1, ee), w') \<and> Q t0 t1"
  shows "\<exists>v rn' t0 t1 w12. Q t0 t1 \<and> numEvents v = n \<and>
           script k env a w0 =
             bind (report env v t0 t1 ee) (\<lambda>(d, tr).
             bind (seq [export env v rn', status_ready env, dpo_close]) (\<lambda>_.
             ret \<lparr>vars = v, runNumber = rn', start = t0, end' = t1, end_early = ee,
                  duration = d, trigRate = tr\<rparr>)) w12"
proof -
  obtain r0 where r0: "visa_query env (trace w0 @ [VisaOpen ''TCPIP::192.168.0.182::INSTR'']) ''*idn?'' = Some r0"
    using vq by (meson option.exhaust)
  obtain w1 where s1: "connect env w0 = (Done (), w1)" and f1: "files w1 = files w0"
    unfolding connect_def using vc r0 by (simp add: Done_simps)
  obtain srv where srv: "f_of_str env (arg_sampleRate a) = Some srv"
    using sr by blast
  obtain v w2 where s2: "read_args env a w1 = (Done v, w2)"
    unfolding read_args_def using rn srv ne by (simp add: Done_simps Let_def)
  note ra = read_args_Done[OF s2]
  from ra(3) rn have rnp: "runNumberParam v = rn" by simp
  from ra(2) f1 have f2: "files w2 = files w0" by simp
  obtain rn' w3 where s3: "configure_run_number env v w2 = (Done rn', w3)"
  proof (cases "rn = - 1")
    case True
    from counter[OF True] obtain c t m where "files w0 RunNumberFile = Some c"
      "locale_decode env c = Some t" "py_int env (universal_newlines t) = Some m"
      by blast
    with True rnp f2 os that show ?thesis
      unfolding configure_run_number_def by (simp add: Done_simps)
  next
    case False
    with rnp that show ?thesis
      unfolding configure_run_number_def by (simp add: Done_simps)
  qed
  from returnsD[OF setup_returns[OF vw vq os]] obtain w10 where
    s4: "seq [announce v rn', open_logbook env v rn', horizontal_setup env v,
              bandwidth_setup env, vertical_setup env v, trigger_setup env v,
              status_busy env] w3 = (Done (), w10)"
    by (metis old.unit.exhaust)
  from acq[OF ra(13), of w10] obtain t0 t1 w11 where
    s11: "acquire k env v w10 = (Done (t0, t1, ee), w11)" and q: "Q t0 t1"
    by blast
  from returnsD[OF status_writing_returns[OF os]] obtain w12 where
    s12: "status_writing env w11 = (Done (), w12)"
    by (metis old.unit.exhaust)
  from ra(4) ne have nv: "numEvents v = n" by simp
  have "script k env a w0 =
             bind (report env v t0 t1 ee) (\<lambda>(d, tr).
             bind (seq [export env v rn', status_ready env, dpo_close]) (\<lambda>_.
             ret \<lparr>vars = v, runNumber = rn', start = t0, end' = t1, end_early = ee,
                  duration = d, trigRate = tr\<rparr>)) w12"
    unfolding script_def
    by (simp add: bind_def[of "connect env"] bind_def[of "read_args env a"]
        bind_def[of "configure_run_number env v"] bind_def[of "seq _"]
        bind_def[of "acquire k env v"] bind_def[of "status_writing env"]
        s1 s2 s3 s4 s11 s12 del: seq.simps)
  with q nv show ?thesis by blast
qed

lemma script_returns:
  assumes vc: "visa_connect env"
    and vw: "\<And>h c. visa_write env h c \<noteq> None"
    and vq: "\<And>h c. visa_query env h c \<noteq> None"
    and os: "\<And>p m. \<not> os_denies env p m"
    and rn: "py_int env (arg_runNumber a) = Some rn"
    and counter: "rn = - 1 \<Longrightarrow> \<exists>c t n. files w0 RunNumberFile = Some c \<and> locale_decode env c = Some t
                \<and> py_int env (universal_newlines t) = Some n"
    and sr: "f_of_str env (arg_sampleRate a) \<noteq> None"
    and ne: "py_int env (arg_numEvents a) = Some n" "f_of_int env n \<noteq> None"
    and acq: "\<And>v w. timeout v = arg_timeout a \<Longrightarrow>
               \<exists>t0 t1 w'. acquire k env v w = (Done (t0, t1, ee), w')
                 \<and> \<not> f_is_zero env (f_sub env t1 t0)"
  shows "\<exists>g w. script k env a w0 = (Done g, w) \<and> end_early g = ee"
proof -
  from script_to_report[of env a rn w0 n k ee "\<lambda>t0 t1. \<not> f_is_zero env (f_sub env t1 t0)",
      OF vc vw vq os rn counter sr ne(1) acq]
  obtain v rn' t0 t1 w12 where
    nz: "\<not> f_is_zero env (f_sub env t1 t0)" and nv: "numEvents v = n"
    and s: "script k env a w0 =
             bind (report env v t0 t1 ee) (\<lambda>(d, tr).
             bind (seq [export env v rn', status_ready env, dpo_close]) (\<lambda>_.
             ret \<lparr>vars = v, runNumber = rn', start = t0, end' = t1, end_early = ee,
                  duration = d, trigRate = tr\<rparr>)) w12"
    by blast
  obtain nev where nev: "f_of_int env n = Some nev" using ne(2) by blast
  obtain w13 where s13: "report env v t0 t1 ee w12
      = (Done (f_sub env t1 t0, f_div env nev (f_sub env t1 t0)), w13)"
    unfolding report_def using nz nev nv
    by (cases ee) (simp_all add: Done_simps Let_def)
  from returnsD[OF finish_returns[OF vw vq os]] obtain w where
    s14: "seq [export env v rn', status_ready env, dpo_close] w13 = (Done (), w)"
    by (metis old.unit.exhaust)
  have "script k env a w0 =
          (Done \<lparr>vars = v, runNumber = rn', start = t0, end' = t1, end_early = ee,
                 duration = f_sub env t1 t0, trigRate = f_div env nev (f_sub env t1 t0)\<rparr>, w)"
    unfolding s
    by (simp add: bind_def s13 s14 ret_def del: seq.simps)
  then show ?thesis by auto
qed

lemma script_zero_duration:
  assumes vc: "visa_connect env"
    and vw: "\<And>h c. visa_write env h c \<noteq> None"
    and vq: "\<And>h c. visa_query env h c \<noteq> None"
    and os: "\<And>p m. \<not> os_denies env p m"
    and rn: "py_int env (arg_runNumber a) = Some rn"
    and counter: "rn = - 1 \<Longrightarrow> \<exists>c t n. files w0 RunNumberFile = Some c \<and> locale_decode env c = Some t
                \<and> py_int env (universal_newlines t) = Some n"
    and sr: "f_of_str env (arg_sampleRate a) \<noteq> None"
    and ne: "py_int env (arg_numEvents a) = Some n" "f_of_int env n \<noteq> None"
    and acq: "\<And>v w. timeout v = arg_timeout a \<Longrightarrow>
               \<exists>t0 t1 w'. acquire k env v w = (Done (t0, t1, ee), w')
                 \<and> f_is_zero env (f_sub env t1 t0)"
  shows "fst (script k env a w0) = Raised ZeroDivisionError"
proof -
  from script_to_report[of env a rn w0 n k ee "\<lambda>t0 t1. f_is_zero env (f_sub env t1 t0)",
      OF vc vw vq os rn counter sr ne(1) acq]
  obtain v rn' t0 t1 w12 where
    z: "f_is_zero env (f_sub env t1 t0)" and nv: "numEvents v = n"
    and s: "script k env a w0 =
             bind (report env v t0 t1 ee) (\<lambda>(d, tr).
             bind (seq [export env v rn', status_ready env, dpo_close]) (\<lambda>_.
             ret \<lparr>vars = v, runNumber = rn', start = t0, end' = t1, end_early = ee,
                  duration = d, trigRate = tr\<rparr>)) w12"
    by blast
  obtain nev where nev: "f_of_int env n = Some nev" using ne(2) by blast
  have "report env v t0 t1 ee w12 = (Raised ZeroDivisionError, w12)"
    unfolding report_def using z nev nv by (simp add: Let_def raise_def)
  then show ?thesis
    unfolding s by (simp add: bind_def)
qed

subsection \<open>Projections and the simulated instrument\<close>

lemma visa_writes_append: "visa_writes (xs @ ys) = visa_writes xs @ visa_writes ys"
  by (induction xs rule: visa_writes.induct) auto

lemma visa_writes_Print: "visa_writes (map Print ps) = []"
  by (induction ps) auto

lemma visa_writes_misses: "visa_writes (misses rs) = []"
  by (induction rs) (auto simp: misses_Cons misses_def)

lemma py_int_samples:
  "py_int py (latin_1 ''7'') = Some 7" "py_int py (latin_1 ''1000'') = Some 1000"
  "py_int py (latin_1 ''4'') = Some 4" "py_int py (latin_1 ''1'') = Some 1"
  "py_int py (latin_1 ''0'') = Some 0" "py_int py (latin_1 ''42'') = Some 42"
  "py_int py (latin_1 ''-1'') = Some (- 1)" "py_int py (latin_1 ''-2'') = Some (- 2)"
  by (simp_all add: py_int_def latin_1_def Py_ISSPACE_def is_digit_def)

lemma sim_interpreter:
  "unicode_isspace (sim_env p c) = unicode_isspace cpython"
  "unicode_todecimal (sim_env p c) = unicode_todecimal cpython"
  "int_max_str_digits (sim_env p c) = int_max_str_digits cpython"
  by (simp_all add: sim_env_def)

lemma sim_to_ascii: "to_ascii (sim_env p c) s = to_ascii cpython s"
  by (induction s) (simp_all add: sim_interpreter split: option.splits)

lemma sim_py_int: "py_int (sim_env p c) s = py_int cpython s"
  unfolding py_int_def sim_to_ascii sim_interpreter by (rule refl)

lemma sim_decode: "locale_decode (sim_env p c) = cp1252"
  by (simp add: sim_env_def cpython_def)

lemma sim_float: "f_of_str (sim_env p c) s = map_option rat_of_int (py_int cpython s)"
  by (simp add: sim_env_def)

lemma cp1252_42: "cp1252 ''42'' = Some (latin_1 ''42'')"
  by (simp add: latin_1_def)

lemma newlines_42: "universal_newlines (latin_1 ''42'') = latin_1 ''42''"
  by (simp add: latin_1_def)

text \<open>
  \<^verbatim>\<open>int\<close> in the simulated interpreter on spellings other than ASCII digits, and the
  limit on the number of digits in any interpreter.
\<close>

lemma py_int_spellings:
  "py_int cpython (latin_1 [CHR 0x1C, CHR ''4'', CHR ''2'']) = None"
  "py_int cpython (latin_1 [CHR 0xA0, CHR ''1'']) = Some 1"
  "py_int cpython (latin_1 [CHR 0x85, CHR ''1'', CHR 0xA0]) = Some 1"
  "py_int cpython [0x664, 0x662] = Some 42"
  "py_int cpython [0xFF11, 95, 0x1D7D8] = Some 10"
  "py_int cpython (latin_1 ''4_2'') = Some 42"
  "py_int cpython (latin_1 ''4__2'') = None"
  "py_int cpython (latin_1 ''42_'') = None"
  "py_int cpython (latin_1 ''+ 42'') = None"
  "py_int cpython (latin_1 [CHR ''4'', CHR ''2'', CHR 0xB2]) = None"
  by (simp_all add: py_int_def latin_1_def Py_ISSPACE_def is_digit_def cpython_def
      ucd_space_def ucd_zeros_def)

lemma to_ascii_digits: "\<forall>c \<in> set s. is_digit c \<Longrightarrow> to_ascii py s = s"
  by (induction s) (auto simp: is_digit_def)

lemma py_int_digit_limit:
  assumes d: "\<forall>c \<in> set s. is_digit c"
    and l: "640 < length s" "0 < int_max_str_digits py" "int_max_str_digits py < length s"
  shows "py_int py s = None"
proof -
  from l obtain c cs where s: "s = c # cs" by (cases s) auto
  with d have "is_digit c" by simp
  then have n: "\<not> Py_ISSPACE c" "c \<noteq> 43" "c \<noteq> 45"
    by (auto simp: is_digit_def Py_ISSPACE_def)
  have a: "to_ascii py s = s"
    by (rule to_ascii_digits[OF d])
  have w: "dropWhile Py_ISSPACE s = s"
    using n by (simp add: s)
  have u: "(if s \<noteq> [] \<and> (hd s = 43 \<or> hd s = 45) then tl s else s) = s"
    using n by (simp add: s)
  have t: "takeWhile (\<lambda>c. is_digit c \<or> c = 95) s = s"
    using d by (simp add: takeWhile_eq_all_conv)
  have f: "filter is_digit s = s"
    using d by simp
  show ?thesis
    unfolding py_int_def Let_def a w u t f using l by simp
qed

lemma py_int_4301: "py_int cpython (replicate 4301 49) = None"
  by (rule py_int_digit_limit) (simp_all add: is_digit_def cpython_def)

lemma tick_moves: "es \<noteq> [] \<Longrightarrow> tick (h @ es) - tick h = of_nat (length es)"
  by (simp add: tick_def)

lemma sim_completed:
  assumes "py_int cpython (arg_runNumber a) = Some rn"
    and "rn = - 1 \<Longrightarrow> \<exists>c t n. fs RunNumberFile = Some c \<and> cp1252 c = Some t
           \<and> py_int cpython (universal_newlines t) = Some n"
    and "py_int cpython (arg_sampleRate a) \<noteq> None"
    and "py_int cpython (arg_numEvents a) \<noteq> None"
  shows "\<exists>g w. main (Suc k) (sim_env (Some 0) tick) a fs = (Done g, w) \<and> \<not> end_early g"
proof -
  let ?env = "sim_env (Some 0) tick"
  obtain n where n: "py_int ?env (arg_numEvents a) = Some n"
    using assms(4) by (auto simp: sim_py_int)
  have rn: "py_int ?env (arg_runNumber a) = Some rn"
    using assms(1) by (simp add: sim_py_int)
  have cnt: "\<exists>c t n. files \<lparr>trace = [], files = fs\<rparr> RunNumberFile = Some c
      \<and> locale_decode ?env c = Some t \<and> py_int ?env (universal_newlines t) = Some n"
    if "rn = - 1"
    using assms(2)[OF that] by (simp add: sim_py_int sim_decode)
  have sr: "f_of_str ?env (arg_sampleRate a) \<noteq> None"
    using assms(3) by (simp add: sim_float)
  have acq: "\<exists>t0 t1 w'. acquire (Suc k) ?env v w = (Done (t0, t1, False), w')
               \<and> \<not> f_is_zero ?env (f_sub ?env t1 t0)" for v w
  proof -
    have "\<exists>n r w'. acquire (Suc k) ?env v w =
           (Done (clock ?env (trace w @ arm_events n),
                  clock ?env (trace w @ arm_events n @ poll_events [] False r), False), w')"
      by (rule acquire_completes) (simp_all add: sim_env_def py_int_samples)
    then obtain m r w' where
      "acquire (Suc k) ?env v w =
           (Done (tick (trace w @ arm_events m),
                  tick ((trace w @ arm_events m) @ poll_events [] False r), False), w')"
      by (auto simp: sim_env_def)
    moreover have "tick ((trace w @ arm_events m) @ poll_events [] False r)
        - tick (trace w @ arm_events m) \<noteq> 0"
      by (subst tick_moves) (simp_all add: poll_events_def)
    ultimately show ?thesis by (auto simp: sim_env_def)
  qed
  have "\<exists>g w. script (Suc k) ?env a \<lparr>trace = [], files = fs\<rparr> = (Done g, w)
          \<and> end_early g = False"
    using rn cnt sr n
    by (intro script_returns[where rn = rn and n = n] acq) (auto simp: sim_env_def)
  then show ?thesis by (simp add: main_def)
qed

lemma sim_timed_out:
  assumes "py_int cpython (arg_runNumber a) = Some rn"
    and "rn = - 1 \<Longrightarrow> \<exists>c t n. fs RunNumberFile = Some c \<and> cp1252 c = Some t
           \<and> py_int cpython (universal_newlines t) = Some n"
    and "py_int cpython (arg_sampleRate a) \<noteq> None"
    and "py_int cpython (arg_numEvents a) \<noteq> None"
    and "arg_timeout a = 1"
  shows "\<exists>g w. main (Suc k) (sim_env None tick) a fs = (Done g, w) \<and> end_early g"
proof -
  let ?env = "sim_env None tick"
  obtain n where n: "py_int ?env (arg_numEvents a) = Some n"
    using assms(4) by (auto simp: sim_py_int)
  have rn: "py_int ?env (arg_runNumber a) = Some rn"
    using assms(1) by (simp add: sim_py_int)
  have cnt: "\<exists>c t n. files \<lparr>trace = [], files = fs\<rparr> RunNumberFile = Some c
      \<and> locale_decode ?env c = Some t \<and> py_int ?env (universal_newlines t) = Some n"
    if "rn = - 1"
    using assms(2)[OF that] by (simp add: sim_py_int sim_decode)
  have sr: "f_of_str ?env (arg_sampleRate a) \<noteq> None"
    using assms(3) by (simp add: sim_float)
  have late: "tick (h @ es) - tick h > 1" if "length es \<ge> 2" for h es
    using that by (simp add: tick_def)
  have acq: "\<exists>t0 t1 w'. acquire (Suc k) ?env v w = (Done (t0, t1, True), w')
               \<and> \<not> f_is_zero ?env (f_sub ?env t1 t0)" if v: "timeout v = arg_timeout a" for v w
  proof -
    obtain m where m: "visa_write ?env (trace w @ [Sleep 2]) '':CDISplay'' = Some m"
      by (simp add: sim_env_def)
    define h where "h = trace w @ arm_events m"
    have "acquire (Suc k) ?env v w =
           (Done (tick h, tick (h @ poll_events [''0''] True []), True),
            w\<lparr>trace := h @ poll_events [''0''] True []\<rparr>)"
      unfolding acquire_def
      using m v assms(5) late[of "[VisaQuery '':ADER?'' ''0'', Sleep (1 / 10)]" h]
      by (simp add: bind_def sleep_def emit_def dpo_write_count_def py_print_def dpo_write_def
          ret_def time_time_def dpo_query_def h_def arm_events_def poll_events_def misses_def
          sim_env_def py_int_samples)
    moreover have "tick (h @ poll_events [''0''] True []) - tick h \<noteq> 0"
      by (subst tick_moves) (simp_all add: poll_events_def)
    ultimately show ?thesis by (auto simp: sim_env_def)
  qed
  have "\<exists>g w. script (Suc k) ?env a \<lparr>trace = [], files = fs\<rparr> = (Done g, w)
          \<and> end_early g = True"
    using rn cnt sr n
    by (intro script_returns[where rn = rn and n = n] acq) (auto simp: sim_env_def)
  then show ?thesis by (simp add: main_def)
qed

lemma sim_args_parse:
  "py_int py (arg_runNumber sim_args) = Some 7"
  "py_int py (arg_sampleRate sim_args) \<noteq> None" "py_int py (arg_numEvents sim_args) \<noteq> None"
  by (simp_all add: sim_args_def py_int_samples)

lemma paths_distinct:
  "log_path \<noteq> run_log_path" "run_log_path \<noteq> log_path"
  "RunNumberFile \<noteq> run_log_path" "run_log_path \<noteq> RunNumberFile"
  "RunNumberFile \<noteq> log_path" "log_path \<noteq> RunNumberFile"
  by (simp_all add: log_path_def run_log_path_def RunNumberFile_def bsl_def cr_def)

lemma visa_io_append: "visa_io (xs @ ys) = visa_io xs @ visa_io ys"
  by (simp add: visa_io_def)

lemma visa_io_simps:
  "visa_io [] = []"
  "visa_io (e # es) = (if is_visa e then e # visa_io es else visa_io es)"
  by (simp_all add: visa_io_def)

lemma visa_io_Print: "visa_io (map Print ps) = []"
  by (induction ps) (auto simp: visa_io_def)

lemma visa_io_misses: "visa_io (misses rs) = map (VisaQuery '':ADER?'') rs"
  by (induction rs) (auto simp: visa_io_def misses_def)

lemma on_file_Print: "filter (on_file p) (map Print ps) = []"
  by (induction ps) auto

lemma on_file_misses: "filter (on_file p) (misses rs) = []"
  by (induction rs) (auto simp: misses_def)

lemma main_trace:
  assumes "main k env a fs = (Done g, w)"
  shows "\<exists>r0 ps r n rs rl r1 r2.
           trace w = run_events env g r0 ps r n rs rl r1 r2
           \<and> (\<forall>r \<in> set rs. \<exists>n. py_int env (latin_1 r) = Some n \<and> n \<noteq> 1)
           \<and> (if end_early g then rs \<noteq> [] \<and> f_gt env (timeout (vars g)) (f_lit env ''0'')
               else py_int env (latin_1 rl) = Some 1)"
  using script_Done[of k env a "\<lparr>trace = [], files = fs\<rparr>" g w] assms
  unfolding run_events_def by (simp add: main_def)

lemmas events_defs = run_events_def announce_events_def logbook_events_def
  horizontal_events_def bandwidth_events_def vertical_events_def trigger_events_def
  status_events_def arm_events_def poll_events_def export_events_def

lemma main_vars:
  assumes "main k env a fs = (Done g, w)"
  shows "py_int env (arg_runNumber a) = Some (runNumberParam (vars g))"
    and "py_int env (arg_numEvents a) = Some (numEvents (vars g))"
    and "hScale (vars g) = f_lit env ''1e-6''"
    and "timeoffset (vars g) = f_mul env (arg_timeoffset a) (f_lit env ''1e-9'')"
    and "trigCh (vars g)
         = (if arg_trigCh a \<noteq> ''AUX'' then ''CHANnel'' @ arg_trigCh a else arg_trigCh a)"
    and "trigLevel (vars g) = arg_trig a" and "triggerSlope (vars g) = arg_trigSlope a"
    and "vScale_ch1 (vars g) = arg_vScale1 a" and "vPos_ch1 (vars g) = arg_vPos1 a"
    and "savewaves (vars g) = arg_save a" and "timeout (vars g) = arg_timeout a"
proof -
  from assms have s: "script k env a \<lparr>trace = [], files = fs\<rparr> = (Done g, w)"
    by (simp add: main_def)
  from script_steps[OF s] obtain w1 w2 where
    s2: "read_args env a w1 = (Done (vars g), w2)"
    by blast
  note ra = read_args_Done[OF s2]
  show "py_int env (arg_runNumber a) = Some (runNumberParam (vars g))"
    "py_int env (arg_numEvents a) = Some (numEvents (vars g))"
    "hScale (vars g) = f_lit env ''1e-6''"
    "timeoffset (vars g) = f_mul env (arg_timeoffset a) (f_lit env ''1e-9'')"
    "trigCh (vars g)
         = (if arg_trigCh a \<noteq> ''AUX'' then ''CHANnel'' @ arg_trigCh a else arg_trigCh a)"
    "trigLevel (vars g) = arg_trig a" "triggerSlope (vars g) = arg_trigSlope a"
    "vScale_ch1 (vars g) = arg_vScale1 a" "vPos_ch1 (vars g) = arg_vPos1 a"
    "savewaves (vars g) = arg_save a" "timeout (vars g) = arg_timeout a"
    using ra by simp_all
qed

lemma main_result:
  assumes "main k env a fs = (Done g, w)"
  shows "duration g = f_sub env (end' g) (start g)"
    and "\<not> f_is_zero env (duration g)"
    and "\<exists>ne. f_of_int env (numEvents (vars g)) = Some ne
           \<and> trigRate g = f_div env ne (duration g)"
    and "files w run_log_path = Some (''ready'' @ nl)"
    and "runNumberParam (vars g) \<noteq> - 1 \<Longrightarrow> runNumber g = runNumberParam (vars g)"
    and "runNumberParam (vars g) = - 1 \<Longrightarrow>
           \<exists>c t. fs RunNumberFile = Some c \<and> locale_decode env c = Some t
                 \<and> py_int env (universal_newlines t) = Some (runNumber g)"
proof -
  from assms have s: "script k env a \<lparr>trace = [], files = fs\<rparr> = (Done g, w)"
    by (simp add: main_def)
  from script_steps[OF s] obtain w1 w2 w3 w12 w13 w14 w15 where
    s1: "connect env \<lparr>trace = [], files = fs\<rparr> = (Done (), w1)"
    and s2: "read_args env a w1 = (Done (vars g), w2)"
    and s3: "configure_run_number env (vars g) w2 = (Done (runNumber g), w3)"
    and s13: "report env (vars g) (start g) (end' g) (end_early g) w12
        = (Done (duration g, trigRate g), w13)"
    and s15: "status_ready env w14 = (Done (), w15)"
    and s16: "dpo_close w15 = (Done (), w)"
    by blast
  from report_Done[OF s13] show "duration g = f_sub env (end' g) (start g)"
    "\<not> f_is_zero env (duration g)"
    "\<exists>ne. f_of_int env (numEvents (vars g)) = Some ne
           \<and> trigRate g = f_div env ne (duration g)"
    by simp_all
  from s16 have "files w = files w15" by (simp add: dpo_close_def emit_Done)
  with status_ready_Done(2)[OF s15] show "files w run_log_path = Some (''ready'' @ nl)"
    by simp
  have f2: "files w2 = fs"
    using connect_Done(2)[OF s1] read_args_Done(2)[OF s2] by simp
  show "runNumber g = runNumberParam (vars g)" if "runNumberParam (vars g) \<noteq> - 1"
    using configure_run_number_Done(2)[OF s3 that] by simp
  show "\<exists>c t. fs RunNumberFile = Some c \<and> locale_decode env c = Some t
                 \<and> py_int env (universal_newlines t) = Some (runNumber g)"
    if "runNumberParam (vars g) = - 1"
    using configure_run_number_Done(3)[OF s3 that] f2 by simp
qed

text \<open>The loop without a deadline, whatever it is answered and however long it runs.\<close>

lemma poll_no_deadline:
  assumes nd: "\<not> f_gt env t (f_lit env ''0'')"
  shows "\<exists>es. trace (snd (poll k env t s w)) = trace w @ es \<and>
           VisaWrite '':STOP;*OPC?'' \<notin> set es \<and>
           fst (poll k env t s w) \<noteq> Done True \<and>
           (fst (poll k env t s w) = Done False \<longrightarrow>
              (\<exists>before r. es = before @ [VisaQuery '':ADER?'' r, Print ''Acquisition complete'']
                 \<and> py_int env (latin_1 r) = Some 1))"
proof (induction k arbitrary: w)
  case 0
  show ?case by simp
next
  case (Suc k)
  show ?case
  proof (cases "visa_query env (trace w) '':ADER?''")
    case None
    then have "poll (Suc k) env t s w = (Raised VisaIOError, w)"
      by (simp add: bind_def dpo_query_def)
    then show ?thesis by simp
  next
    case (Some r)
    define w1 where "w1 = w\<lparr>trace := trace w @ [VisaQuery '':ADER?'' r]\<rparr>"
    show ?thesis
    proof (cases "py_int env (latin_1 r)")
      case None
      with Some have "poll (Suc k) env t s w = (Raised ValueError, w1)"
        by (simp add: bind_def dpo_query_def raise_def w1_def)
      then show ?thesis by (simp add: w1_def)
    next
      case (Some n)
      show ?thesis
      proof (cases "n = 1")
        case True
        with Some \<open>visa_query env (trace w) '':ADER?'' = Some r\<close>
        have "poll (Suc k) env t s w =
            (Done False, w1\<lparr>trace := trace w1 @ [Print ''Acquisition complete'']\<rparr>)"
          by (simp add: bind_def dpo_query_def py_print_def emit_def ret_def w1_def)
        with Some True show ?thesis by (simp add: w1_def)
      next
        case False
        define w2 where "w2 = w1\<lparr>trace := trace w1 @ [Sleep (1 / 10)]\<rparr>"
        from Some False nd \<open>visa_query env (trace w) '':ADER?'' = Some r\<close>
        have p: "poll (Suc k) env t s w = poll k env t s w2"
          by (simp add: bind_def dpo_query_def sleep_def emit_def w1_def w2_def)
        from Suc.IH[of w2] obtain es where
          es: "trace (snd (poll k env t s w2)) = trace w2 @ es"
            "VisaWrite '':STOP;*OPC?'' \<notin> set es"
            "fst (poll k env t s w2) \<noteq> Done True"
            "fst (poll k env t s w2) = Done False \<longrightarrow>
              (\<exists>before r. es = before @ [VisaQuery '':ADER?'' r, Print ''Acquisition complete'']
                 \<and> py_int env (latin_1 r) = Some 1)"
          by blast
        have t2: "trace w2 = trace w @ [VisaQuery '':ADER?'' r, Sleep (1 / 10)]"
          by (simp add: w2_def w1_def)
        show ?thesis
        proof (rule exI[of _ "[VisaQuery '':ADER?'' r, Sleep (1 / 10)] @ es"], intro conjI impI)
          show "trace (snd (poll (Suc k) env t s w))
              = trace w @ [VisaQuery '':ADER?'' r, Sleep (1 / 10)] @ es"
            unfolding p es(1) t2 by simp
          show "VisaWrite '':STOP;*OPC?'' \<notin> set ([VisaQuery '':ADER?'' r, Sleep (1 / 10)] @ es)"
            using es(2) by simp
          show "fst (poll (Suc k) env t s w) \<noteq> Done True"
            unfolding p by (rule es(3))
          assume "fst (poll (Suc k) env t s w) = Done False"
          with es(4) p obtain before r' where
            "es = before @ [VisaQuery '':ADER?'' r', Print ''Acquisition complete'']"
            "py_int env (latin_1 r') = Some 1"
            by auto
          then show "\<exists>before ra. [VisaQuery '':ADER?'' r, Sleep (1 / 10)] @ es
              = before @ [VisaQuery '':ADER?'' ra, Print ''Acquisition complete'']
              \<and> py_int env (latin_1 ra) = Some 1"
            by (intro exI[of _ "[VisaQuery '':ADER?'' r, Sleep (1 / 10)] @ before"] exI[of _ r'])
               simp
        qed
      qed
    qed
  qed
qed

lemma sim_frozen:
  assumes "py_int cpython (arg_runNumber a) = Some rn"
    and "rn = - 1 \<Longrightarrow> \<exists>c t n. fs RunNumberFile = Some c \<and> cp1252 c = Some t
           \<and> py_int cpython (universal_newlines t) = Some n"
    and "py_int cpython (arg_sampleRate a) \<noteq> None"
    and "py_int cpython (arg_numEvents a) \<noteq> None"
  shows "fst (main (Suc k) (sim_env (Some 0) frozen) a fs) = Raised ZeroDivisionError"
proof -
  let ?env = "sim_env (Some 0) frozen"
  obtain n where n: "py_int ?env (arg_numEvents a) = Some n"
    using assms(4) by (auto simp: sim_py_int)
  have rn: "py_int ?env (arg_runNumber a) = Some rn"
    using assms(1) by (simp add: sim_py_int)
  have cnt: "\<exists>c t n. files \<lparr>trace = [], files = fs\<rparr> RunNumberFile = Some c
      \<and> locale_decode ?env c = Some t \<and> py_int ?env (universal_newlines t) = Some n"
    if "rn = - 1"
    using assms(2)[OF that] by (simp add: sim_py_int sim_decode)
  have sr: "f_of_str ?env (arg_sampleRate a) \<noteq> None"
    using assms(3) by (simp add: sim_float)
  have acq: "\<exists>t0 t1 w'. acquire (Suc k) ?env v w = (Done (t0, t1, False), w')
               \<and> f_is_zero ?env (f_sub ?env t1 t0)" for v w
  proof -
    have "\<exists>n r w'. acquire (Suc k) ?env v w =
           (Done (clock ?env (trace w @ arm_events n),
                  clock ?env (trace w @ arm_events n @ poll_events [] False r), False), w')"
      by (rule acquire_completes) (simp_all add: sim_env_def py_int_samples)
    then show ?thesis by (auto simp: sim_env_def frozen_def)
  qed
  have "fst (script (Suc k) ?env a \<lparr>trace = [], files = fs\<rparr>) = Raised ZeroDivisionError"
    using rn cnt sr n
    by (intro script_zero_duration[where rn = rn and n = n and ee = False] acq)
       (auto simp: sim_env_def)
  then show ?thesis by (simp add: main_def)
qed

subsection \<open>The counter file\<close>

lemma keeps_ret: "keeps p (ret x)"
  by (simp add: keeps_def ret_def)

lemma keeps_raise: "keeps p (raise e)"
  by (simp add: keeps_def raise_def)

lemma keeps_emit: "keeps p (emit e)"
  by (simp add: keeps_def emit_def)

lemma keeps_bind: "keeps p m \<Longrightarrow> (\<And>x. keeps p (f x)) \<Longrightarrow> keeps p (bind m f)"
  unfolding keeps_def bind_def
  by (auto split: prod.splits outcome.splits) (metis snd_conv)+

lemma keeps_seq: "(\<And>m. m \<in> set ms \<Longrightarrow> keeps p m) \<Longrightarrow> keeps p (seq ms)"
proof (induction ms)
  case Nil
  show ?case by (simp add: keeps_ret)
next
  case (Cons m ms)
  then show ?case by (simp add: keeps_bind)
qed

lemma keeps_if: "keeps p m \<Longrightarrow> keeps p m' \<Longrightarrow> keeps p (if c then m else m')"
  by simp

lemma keeps_case_option:
  "keeps p m \<Longrightarrow> (\<And>x. keeps p (f x)) \<Longrightarrow> keeps p (case y of None \<Rightarrow> m | Some x \<Rightarrow> f x)"
  by (cases y) simp_all

lemma keeps_case_prod: "(\<And>x y. keeps p (f x y)) \<Longrightarrow> keeps p (case z of (x, y) \<Rightarrow> f x y)"
  by (cases z) simp

lemma keeps_time_time: "keeps p (time_time env)"
  by (simp add: keeps_def time_time_def)

lemma keeps_datetime_now: "keeps p (datetime_now env)"
  by (simp add: keeps_def datetime_now_def)

lemma keeps_open_resource: "keeps p (open_resource env addr)"
  by (simp add: open_resource_def keeps_emit keeps_raise)

lemma keeps_dpo_write_count: "keeps p (dpo_write_count env c)"
  by (simp add: keeps_def dpo_write_count_def split: option.splits)

lemma keeps_dpo_write: "keeps p (dpo_write env c)"
  by (simp add: dpo_write_def keeps_bind keeps_dpo_write_count keeps_ret)

lemma keeps_dpo_query: "keeps p (dpo_query env c)"
  by (simp add: keeps_def dpo_query_def split: option.splits)

lemma keeps_py_open: "q \<noteq> p \<or> mode = ModeR \<Longrightarrow> keeps p (py_open env q mode)"
  by (auto simp: keeps_def py_open_def split: fmode.splits option.splits)

lemma keeps_py_read: "keeps p (py_read q)"
  by (simp add: keeps_def py_read_def)

lemma keeps_py_write: "q \<noteq> p \<Longrightarrow> keeps p (py_write q s)"
  by (simp add: keeps_def py_write_def)

lemmas keeps_intros =
  keeps_ret keeps_raise keeps_emit keeps_bind keeps_if keeps_case_option keeps_case_prod
  keeps_time_time keeps_datetime_now keeps_open_resource keeps_dpo_write_count
  keeps_dpo_write keeps_dpo_query keeps_py_open keeps_py_read keeps_py_write

lemma keeps_poll: "keeps p (poll k env t s)"
proof (induction k)
  case 0
  show ?case by (simp add: keeps_def)
next
  case (Suc k)
  show ?case
    unfolding poll.simps py_print_def sleep_def
    by (intro keeps_intros Suc.IH)
qed

lemma keeps_counter:
  "keeps RunNumberFile (script k env a)"
proof -
  note [simp] = paths_distinct
  have 1: "keeps RunNumberFile (connect env)"
    unfolding connect_def py_print_def
    by (rule keeps_seq) (auto intro!: keeps_intros)
  have 2: "keeps RunNumberFile (read_args env a)"
    unfolding read_args_def py_print_def Let_def
    by (intro keeps_intros)
  have 3: "keeps RunNumberFile (configure_run_number env v)" for v
    unfolding configure_run_number_def py_close_def
    by (intro keeps_intros) simp
  have 4: "keeps RunNumberFile (announce v rn)" for v rn
    unfolding announce_def py_print_def
    by (rule keeps_seq) (auto intro!: keeps_intros)
  have 5: "keeps RunNumberFile (open_logbook env v rn)" for v rn
    unfolding open_logbook_def
    by (rule keeps_seq) (auto intro!: keeps_intros)
  have 6: "keeps RunNumberFile (horizontal_setup env v)" for v
    unfolding horizontal_setup_def py_print_def
    by (rule keeps_seq) (auto intro!: keeps_intros)
  have 7: "keeps RunNumberFile (bandwidth_setup env)"
    unfolding bandwidth_setup_def py_print_def
    by (rule keeps_seq) (auto intro!: keeps_intros)
  have 8: "keeps RunNumberFile (vertical_setup env v)" for v
    unfolding vertical_setup_def py_print_def
    by (rule keeps_seq) (auto intro!: keeps_intros)
  have 9: "keeps RunNumberFile (trigger_setup env v)" for v
    unfolding trigger_setup_def py_print_def py_close_def Let_def
    by (rule keeps_seq) (auto intro!: keeps_intros)
  have 10: "keeps RunNumberFile (status_busy env)"
    unfolding status_busy_def py_close_def
    by (rule keeps_seq) (auto intro!: keeps_intros)
  have 11: "keeps RunNumberFile (acquire k env v)" for v
    unfolding acquire_def py_print_def sleep_def
    by (intro keeps_intros keeps_poll)
  have 12: "keeps RunNumberFile (status_writing env)"
    unfolding status_writing_def py_close_def
    by (rule keeps_seq) (auto intro!: keeps_intros)
  have 13: "keeps RunNumberFile (report env v t0 t1 ee)" for v t0 t1 ee
    unfolding report_def py_print_def Let_def
    by (intro keeps_intros)
  have 14: "keeps RunNumberFile (export env v rn)" for v rn
    unfolding export_def py_print_def sleep_def
    by (intro keeps_if keeps_seq keeps_ret) (auto intro!: keeps_intros)
  have 15: "keeps RunNumberFile (status_ready env)"
    unfolding status_ready_def py_close_def
    by (rule keeps_seq) (auto intro!: keeps_intros)
  have 16: "keeps RunNumberFile dpo_close"
    by (simp add: dpo_close_def keeps_emit)
  show ?thesis
    unfolding script_def
    by (intro keeps_bind keeps_case_prod keeps_ret keeps_seq 1 2 3 11 12 13)
       (auto simp: 4 5 6 7 8 9 10 14 15 16)
qed

lemma connect_cases:
  "(\<exists>w1. connect env w = (Done (), w1) \<and> files w1 = files w
          \<and> visa_writes (trace w1) = visa_writes (trace w)) \<or>
   (\<exists>w1. connect env w = (Raised VisaIOError, w1)
          \<and> visa_writes (trace w1) = visa_writes (trace w))"
  unfolding connect_def
  by (auto simp: bind_def open_resource_def emit_def raise_def dpo_query_def py_print_def
      ret_def visa_writes_append split: option.splits)

lemma read_args_cases:
  "(\<exists>v w1. read_args env a w = (Done v, w1) \<and> files w1 = files w
          \<and> visa_writes (trace w1) = visa_writes (trace w)) \<or>
   (\<exists>w1. read_args env a w = (Raised ValueError, w1)
          \<and> visa_writes (trace w1) = visa_writes (trace w))"
  unfolding read_args_def
  by (auto simp: Let_def bind_def emit_def raise_def py_print_def datetime_now_def
      ret_def visa_writes_append split: option.splits)

lemma configure_minus_one:
  assumes "runNumberParam v = - 1"
  shows "fst (configure_run_number env v w) =
           (if os_denies env RunNumberFile ModeR then Raised PermissionError
            else case files w RunNumberFile of
                   None \<Rightarrow> Raised FileNotFoundError
                 | Some c \<Rightarrow>
                     (case locale_decode env c of
                        None \<Rightarrow> Raised UnicodeDecodeError
                      | Some t \<Rightarrow>
                          (case py_int env (universal_newlines t) of
                             None \<Rightarrow> Raised ValueError
                           | Some n \<Rightarrow> Done n)))"
    and "visa_writes (trace (snd (configure_run_number env v w))) = visa_writes (trace w)"
  using assms unfolding configure_run_number_def
  by (auto simp: bind_def py_open_def py_read_def py_close_def emit_def raise_def ret_def
      visa_writes_append split: option.splits)

lemma counter_failure:
  assumes rn: "py_int env (arg_runNumber a) = Some (- 1)"
    and bad: "os_denies env RunNumberFile ModeR \<or> files w0 RunNumberFile = None \<or>
              (\<exists>c. files w0 RunNumberFile = Some c \<and>
                 (locale_decode env c = None \<or>
                  (\<exists>t. locale_decode env c = Some t
                     \<and> py_int env (universal_newlines t) = None)))"
  shows "\<exists>e w. script k env a w0 = (Raised e, w) \<and>
           e \<in> {VisaIOError, ValueError, UnicodeDecodeError, PermissionError,
                FileNotFoundError} \<and>
           visa_writes (trace w) = visa_writes (trace w0)"
proof -
  from connect_cases[of env w0] show ?thesis
  proof (elim disjE exE conjE)
    fix w1
    assume "connect env w0 = (Raised VisaIOError, w1)"
      "visa_writes (trace w1) = visa_writes (trace w0)"
    then show ?thesis unfolding script_def by (simp add: bind_def)
  next
    fix w1
    assume s1: "connect env w0 = (Done (), w1)" and f1: "files w1 = files w0"
      and t1: "visa_writes (trace w1) = visa_writes (trace w0)"
    from read_args_cases[of env a w1] show ?thesis
    proof (elim disjE exE conjE)
      fix w2
      assume "read_args env a w1 = (Raised ValueError, w2)"
        "visa_writes (trace w2) = visa_writes (trace w1)"
      with s1 t1 show ?thesis unfolding script_def by (simp add: bind_def)
    next
      fix v w2
      assume s2: "read_args env a w1 = (Done v, w2)" and f2: "files w2 = files w1"
        and t2: "visa_writes (trace w2) = visa_writes (trace w1)"
      from read_args_Done(3)[OF s2] rn have m: "runNumberParam v = - 1" by simp
      obtain o3 w3 where s3: "configure_run_number env v w2 = (o3, w3)"
        by (cases "configure_run_number env v w2")
      from configure_minus_one[OF m, of env w2] s3 bad f1 f2
      obtain e where "o3 = Raised e"
        "e \<in> {ValueError, UnicodeDecodeError, PermissionError, FileNotFoundError}"
        "visa_writes (trace w3) = visa_writes (trace w2)"
        by (auto split: if_splits option.splits)
      with s1 s2 s3 t1 t2 show ?thesis
        unfolding script_def by (simp add: bind_def del: seq.simps)
    qed
  qed
qed

lemma script_counter_error:
  assumes vc: "visa_connect env"
    and vq: "\<And>h c. visa_query env h c \<noteq> None"
    and rn: "py_int env (arg_runNumber a) = Some (- 1)"
    and sr: "f_of_str env (arg_sampleRate a) \<noteq> None"
    and ne: "py_int env (arg_numEvents a) \<noteq> None"
    and bad: "\<And>v w. runNumberParam v = - 1 \<Longrightarrow> files w = files w0 \<Longrightarrow>
                fst (configure_run_number env v w) = Raised e"
  shows "fst (script k env a w0) = Raised e"
proof -
  obtain r0 where r0: "visa_query env (trace w0 @ [VisaOpen ''TCPIP::192.168.0.182::INSTR'']) ''*idn?'' = Some r0"
    using vq by (meson option.exhaust)
  obtain w1 where s1: "connect env w0 = (Done (), w1)" and f1: "files w1 = files w0"
    unfolding connect_def using vc r0 by (simp add: Done_simps)
  obtain srv n where srv: "f_of_str env (arg_sampleRate a) = Some srv"
    and n: "py_int env (arg_numEvents a) = Some n"
    using sr ne by blast
  obtain v w2 where s2: "read_args env a w1 = (Done v, w2)"
    unfolding read_args_def using rn srv n by (simp add: Done_simps Let_def)
  note ra = read_args_Done[OF s2]
  from ra(3) rn have m: "runNumberParam v = - 1" by simp
  from ra(2) f1 have f2: "files w2 = files w0" by simp
  obtain o3 w3 where s3: "configure_run_number env v w2 = (o3, w3)"
    by (cases "configure_run_number env v w2")
  from bad[OF m f2] s3 have "o3 = Raised e" by simp
  with s1 s2 s3 show ?thesis
    unfolding script_def by (simp add: bind_def del: seq.simps)
qed

lemma sim_counter_error:
  assumes "fst (configure_run_number (sim_env (Some 0) tick) (v\<lparr>runNumberParam := - 1\<rparr>)
                  \<lparr>trace = [], files = fs\<rparr>) = Raised e"
  shows "fst (main 1 (sim_env (Some 0) tick) (sim_args\<lparr>arg_runNumber := latin_1 ''-1''\<rparr>) fs)
           = Raised e"
  unfolding main_def
proof (rule script_counter_error)
  fix v' :: "rat vars" and w :: world
  assume m: "runNumberParam v' = - 1" and f: "files w = files \<lparr>trace = [], files = fs\<rparr>"
  have "fst (configure_run_number (sim_env (Some 0) tick) v' w)
      = fst (configure_run_number (sim_env (Some 0) tick) (v\<lparr>runNumberParam := - 1\<rparr>)
                  \<lparr>trace = [], files = fs\<rparr>)"
    using m f by (simp add: configure_minus_one(1))
  with assms show "fst (configure_run_number (sim_env (Some 0) tick) v' w) = Raised e"
    by simp
qed (simp_all add: sim_env_def sim_args_def py_int_samples)

lemma sim_run:
  "\<exists>g w. main 1 (sim_env (Some 0) tick) sim_args fs = (Done g, w) \<and> \<not> end_early g"
proof -
  have "\<exists>g w. main (Suc 0) (sim_env (Some 0) tick) sim_args fs = (Done g, w) \<and> \<not> end_early g"
    by (rule sim_completed[where rn = 7]) (simp_all add: sim_args_def py_int_samples)
  then show ?thesis by simp
qed

subsection \<open>Where a run can die of the division\<close>

lemma bind_Raised:
  "bind m f w = (Raised e, w') \<longleftrightarrow>
     m w = (Raised e, w') \<or> (\<exists>x w1. m w = (Done x, w1) \<and> f x w1 = (Raised e, w'))"
  by (auto simp: bind_def split: prod.splits outcome.splits)

lemma avoidsD: "avoids e m \<Longrightarrow> m w \<noteq> (Raised e, w')"
  unfolding avoids_def by (metis fst_conv)

lemma avoids_ret: "avoids e (ret x)"
  by (simp add: avoids_def ret_def)

lemma avoids_raise: "e' \<noteq> e \<Longrightarrow> avoids e (raise e')"
  by (simp add: avoids_def raise_def)

lemma avoids_emit: "avoids e (emit x)"
  by (simp add: avoids_def emit_def)

lemma avoids_bind: "avoids e m \<Longrightarrow> (\<And>x. avoids e (f x)) \<Longrightarrow> avoids e (bind m f)"
  unfolding avoids_def bind_def
  by (auto split: prod.splits outcome.splits) (metis fst_conv)+

lemma avoids_seq: "(\<And>m. m \<in> set ms \<Longrightarrow> avoids e m) \<Longrightarrow> avoids e (seq ms)"
proof (induction ms)
  case Nil
  show ?case by (simp add: avoids_ret)
next
  case (Cons m ms)
  then show ?case by (simp add: avoids_bind)
qed

lemma avoids_if: "avoids e m \<Longrightarrow> avoids e m' \<Longrightarrow> avoids e (if c then m else m')"
  by simp

lemma avoids_case_option:
  "avoids e m \<Longrightarrow> (\<And>x. avoids e (f x)) \<Longrightarrow> avoids e (case y of None \<Rightarrow> m | Some x \<Rightarrow> f x)"
  by (cases y) simp_all

lemma avoids_time_time: "avoids e (time_time env)"
  by (simp add: avoids_def time_time_def)

lemma avoids_datetime_now: "avoids e (datetime_now env)"
  by (simp add: avoids_def datetime_now_def)

lemma avoids_open_resource: "e \<noteq> VisaIOError \<Longrightarrow> avoids e (open_resource env addr)"
  by (auto simp: open_resource_def avoids_emit avoids_raise)

lemma avoids_dpo_write_count: "e \<noteq> VisaIOError \<Longrightarrow> avoids e (dpo_write_count env c)"
  by (auto simp: avoids_def dpo_write_count_def split: option.splits)

lemma avoids_dpo_write: "e \<noteq> VisaIOError \<Longrightarrow> avoids e (dpo_write env c)"
  by (simp add: dpo_write_def avoids_bind avoids_dpo_write_count avoids_ret)

lemma avoids_dpo_query: "e \<noteq> VisaIOError \<Longrightarrow> avoids e (dpo_query env c)"
  by (auto simp: avoids_def dpo_query_def split: option.splits)

lemma avoids_py_open:
  "e \<noteq> PermissionError \<Longrightarrow> e \<noteq> FileNotFoundError \<Longrightarrow> avoids e (py_open env q mode)"
  by (auto simp: avoids_def py_open_def split: fmode.splits option.splits)

lemma avoids_py_read: "avoids e (py_read q)"
  by (simp add: avoids_def py_read_def)

lemma avoids_py_write: "avoids e (py_write q s)"
  by (simp add: avoids_def py_write_def)

lemmas avoids_intros =
  avoids_ret avoids_raise avoids_emit avoids_bind avoids_if avoids_case_option
  avoids_time_time avoids_datetime_now avoids_open_resource avoids_dpo_write_count
  avoids_dpo_write avoids_dpo_query avoids_py_open avoids_py_read avoids_py_write

lemma avoids_poll: "avoids ZeroDivisionError (poll k env t s)"
proof (induction k)
  case 0
  show ?case by (simp add: avoids_def)
next
  case (Suc k)
  show ?case
    unfolding poll.simps py_print_def sleep_def
    by (intro avoids_intros Suc.IH) simp_all
qed

text \<open>Only the report divides.\<close>

lemma avoids_division:
  "avoids ZeroDivisionError (connect env)"
  "avoids ZeroDivisionError (read_args env a)"
  "avoids ZeroDivisionError (configure_run_number env v)"
  "avoids ZeroDivisionError
     (seq [announce v rn, open_logbook env v rn, horizontal_setup env v, bandwidth_setup env,
           vertical_setup env v, trigger_setup env v, status_busy env])"
  "avoids ZeroDivisionError (acquire k env v)"
  "avoids ZeroDivisionError (status_writing env)"
  "avoids ZeroDivisionError (seq [export env v rn, status_ready env, dpo_close])"
proof -
  show "avoids ZeroDivisionError (connect env)"
    unfolding connect_def py_print_def
    by (rule avoids_seq) (auto intro!: avoids_intros)
  show "avoids ZeroDivisionError (read_args env a)"
    unfolding read_args_def py_print_def Let_def
    by (intro avoids_intros) simp_all
  show "avoids ZeroDivisionError (configure_run_number env v)"
    unfolding configure_run_number_def py_close_def
    by (intro avoids_intros) simp_all
  have 4: "avoids ZeroDivisionError (announce v rn)"
    unfolding announce_def py_print_def
    by (rule avoids_seq) (auto intro!: avoids_intros)
  have 5: "avoids ZeroDivisionError (open_logbook env v rn)"
    unfolding open_logbook_def
    by (rule avoids_seq) (auto intro!: avoids_intros)
  have 6: "avoids ZeroDivisionError (horizontal_setup env v)"
    unfolding horizontal_setup_def py_print_def
    by (rule avoids_seq) (auto intro!: avoids_intros)
  have 7: "avoids ZeroDivisionError (bandwidth_setup env)"
    unfolding bandwidth_setup_def py_print_def
    by (rule avoids_seq) (auto intro!: avoids_intros)
  have 8: "avoids ZeroDivisionError (vertical_setup env v)"
    unfolding vertical_setup_def py_print_def
    by (rule avoids_seq) (auto intro!: avoids_intros)
  have 9: "avoids ZeroDivisionError (trigger_setup env v)"
    unfolding trigger_setup_def py_print_def py_close_def Let_def
    by (rule avoids_seq) (auto intro!: avoids_intros)
  have 10: "avoids ZeroDivisionError (status_busy env)"
    unfolding status_busy_def py_close_def
    by (rule avoids_seq) (auto intro!: avoids_intros)
  show "avoids ZeroDivisionError
     (seq [announce v rn, open_logbook env v rn, horizontal_setup env v, bandwidth_setup env,
           vertical_setup env v, trigger_setup env v, status_busy env])"
    by (rule avoids_seq) (auto simp: 4 5 6 7 8 9 10)
  show "avoids ZeroDivisionError (acquire k env v)"
    unfolding acquire_def py_print_def sleep_def
    by (intro avoids_intros avoids_poll) simp_all
  show "avoids ZeroDivisionError (status_writing env)"
    unfolding status_writing_def py_close_def
    by (rule avoids_seq) (auto intro!: avoids_intros)
  have 14: "avoids ZeroDivisionError (export env v rn)"
    unfolding export_def py_print_def sleep_def
    by (intro avoids_if avoids_seq avoids_ret) (auto intro!: avoids_intros)
  have 15: "avoids ZeroDivisionError (status_ready env)"
    unfolding status_ready_def py_close_def
    by (rule avoids_seq) (auto intro!: avoids_intros)
  have 16: "avoids ZeroDivisionError dpo_close"
    by (simp add: dpo_close_def avoids_emit)
  show "avoids ZeroDivisionError (seq [export env v rn, status_ready env, dpo_close])"
    by (rule avoids_seq) (auto simp: 14 15 16)
qed

lemma report_zero_division:
  "report env v t0 t1 ee w = (Raised ZeroDivisionError, w') \<longleftrightarrow>
     w' = w \<and> f_of_int env (numEvents v) \<noteq> None \<and> f_is_zero env (f_sub env t1 t0)"
  unfolding report_def
  by (cases ee)
     (auto simp: Let_def raise_def bind_def py_print_def emit_def ret_def split: option.splits)

lemma script_zero_division:
  assumes "script k env a w0 = (Raised ZeroDivisionError, w)"
  shows "\<exists>v rn t0 t1 ee w1 w2 w3 w10 w11.
      connect env w0 = (Done (), w1)
    \<and> read_args env a w1 = (Done v, w2)
    \<and> configure_run_number env v w2 = (Done rn, w3)
    \<and> seq [announce v rn, open_logbook env v rn, horizontal_setup env v, bandwidth_setup env,
            vertical_setup env v, trigger_setup env v, status_busy env] w3 = (Done (), w10)
    \<and> acquire k env v w10 = (Done (t0, t1, ee), w11)
    \<and> status_writing env w11 = (Done (), w)
    \<and> f_of_int env (numEvents v) \<noteq> None \<and> f_is_zero env (f_sub env t1 t0)"
  using assms unfolding script_def
  by (auto simp: bind_Raised avoids_division[THEN avoidsD] ret_def report_zero_division
      split: prod.splits simp del: seq.simps)

lemma not_closed:
  "VisaClose \<notin> set (map Print ps)" "VisaClose \<notin> set (misses rs)"
  by (auto simp: misses_def)

lemma script_zero_division_trace:
  assumes "script k env a w0 = (Raised ZeroDivisionError, w)"
  shows "\<exists>v rn ee r0 ps r n rs rl.
           trace w = trace w0 @ writing_events env v rn ee r0 ps r n rs rl"
    and "\<exists>h es. trace w = h @ es @ status_events [''writing'', nl]
           \<and> f_is_zero env (f_sub env (clock env (h @ es)) (clock env h))"
    and "files w run_log_path = Some (''writing'' @ nl)"
proof -
  from script_zero_division[OF assms] obtain v rn t0 t1 ee w1 w2 w3 w10 w11 where
    s1: "connect env w0 = (Done (), w1)"
    and s2: "read_args env a w1 = (Done v, w2)"
    and s3: "configure_run_number env v w2 = (Done rn, w3)"
    and s4: "seq [announce v rn, open_logbook env v rn, horizontal_setup env v,
                  bandwidth_setup env, vertical_setup env v, trigger_setup env v,
                  status_busy env] w3 = (Done (), w10)"
    and s11: "acquire k env v w10 = (Done (t0, t1, ee), w11)"
    and s12: "status_writing env w11 = (Done (), w)"
    and z: "f_is_zero env (f_sub env t1 t0)"
    by blast
  from s4 obtain w4 w5 w6 w7 w8 w9 where
    s4': "announce v rn w3 = (Done (), w4)"
    and s5: "open_logbook env v rn w4 = (Done (), w5)"
    and s6: "horizontal_setup env v w5 = (Done (), w6)"
    and s7: "bandwidth_setup env w6 = (Done (), w7)"
    and s8: "vertical_setup env v w7 = (Done (), w8)"
    and s9: "trigger_setup env v w8 = (Done (), w9)"
    and s10: "status_busy env w9 = (Done (), w10)"
    by (auto simp: seq_Cons_Done seq_Nil_Done simp del: seq.simps)
  from connect_Done(1)[OF s1] obtain r0 where
    t1: "trace w1 = trace w0
       @ [VisaOpen ''TCPIP::192.168.0.182::INSTR'', VisaQuery ''*idn?'' r0, Print r0]"
    by blast
  from read_args_Done(1)[OF s2] obtain ps where t2: "trace w2 = trace w1 @ map Print ps"
    by blast
  have t3: "trace w3 = trace w2 @
      (if runNumberParam v = - 1
       then [FileOpen RunNumberFile ModeR, FileRead RunNumberFile, FileClose RunNumberFile]
       else [])"
    using configure_run_number_Done(2,3)[OF s3] by (cases "runNumberParam v = - 1") auto
  note t4 = announce_Done(1)[OF s4']
  note t5 = open_logbook_Done[OF s5]
  from horizontal_setup_Done[OF s6] obtain r where
    t6: "trace w6 = trace w5 @ horizontal_events env v r" by blast
  note t7 = bandwidth_setup_Done[OF s7]
  note t8 = vertical_setup_Done[OF s8]
  note t9 = trigger_setup_Done[OF s9]
  note t10 = status_busy_Done(1)[OF s10]
  from acquire_Done[OF s11] obtain n rs rl where
    t11: "trace w11 = trace w10 @ arm_events n @ poll_events rs ee rl"
    and c0: "t0 = clock env (trace w10 @ arm_events n)" and c1: "t1 = clock env (trace w11)"
    by blast
  note t12 = status_writing_Done(1)[OF s12]
  have "trace w = trace w0 @ writing_events env v rn ee r0 ps r n rs rl"
    unfolding t12 t11 t10 t9 t8 t7 t6 t5 t4 t3 t2 t1 writing_events_def
    by (simp only: append_assoc)
  then show "\<exists>v rn ee r0 ps r n rs rl.
           trace w = trace w0 @ writing_events env v rn ee r0 ps r n rs rl"
    by blast
  have "trace w = (trace w10 @ arm_events n) @ poll_events rs ee rl
          @ status_events [''writing'', nl]"
    unfolding t12 t11 by simp
  moreover have "f_is_zero env (f_sub env
      (clock env ((trace w10 @ arm_events n) @ poll_events rs ee rl))
      (clock env (trace w10 @ arm_events n)))"
    using z unfolding c0 c1 t11 by simp
  ultimately show "\<exists>h es. trace w = h @ es @ status_events [''writing'', nl]
           \<and> f_is_zero env (f_sub env (clock env (h @ es)) (clock env h))"
    by blast
  from status_writing_Done(2)[OF s12] show "files w run_log_path = Some (''writing'' @ nl)"
    by simp
qed

lemma main_zero_division:
  assumes "main k env a fs = (Raised ZeroDivisionError, w)"
  shows "\<exists>h es. trace w = h @ es
             @ [FileOpen run_log_path ModeW, FileWrite run_log_path ''writing'',
                FileWrite run_log_path nl, FileClose run_log_path]
           \<and> f_is_zero env (f_sub env (clock env (h @ es)) (clock env h))"
    and "filter (on_file run_log_path) (trace w) =
           [FileOpen run_log_path ModeW,
            FileWrite run_log_path ''busy'',
            FileClose run_log_path,
            FileOpen run_log_path ModeW,
            FileWrite run_log_path ''writing'',
            FileWrite run_log_path nl,
            FileClose run_log_path]"
    and "files w run_log_path = Some (''writing'' @ nl)"
    and "filter (starts_with '':DISK:'') (visa_writes (trace w)) = []"
    and "VisaClose \<notin> set (trace w)"
proof -
  from assms have s: "script k env a \<lparr>trace = [], files = fs\<rparr> = (Raised ZeroDivisionError, w)"
    by (simp add: main_def)
  from script_zero_division_trace(1)[OF s] obtain v rn ee r0 ps r n rs rl where
    t: "trace w = writing_events env v rn ee r0 ps r n rs rl"
    by auto
  from script_zero_division_trace(2)[OF s]
  show "\<exists>h es. trace w = h @ es
             @ [FileOpen run_log_path ModeW, FileWrite run_log_path ''writing'',
                FileWrite run_log_path nl, FileClose run_log_path]
           \<and> f_is_zero env (f_sub env (clock env (h @ es)) (clock env h))"
    by (simp add: status_events_def)
  show "filter (on_file run_log_path) (trace w) =
           [FileOpen run_log_path ModeW,
            FileWrite run_log_path ''busy'',
            FileClose run_log_path,
            FileOpen run_log_path ModeW,
            FileWrite run_log_path ''writing'',
            FileWrite run_log_path nl,
            FileClose run_log_path]"
    unfolding t
    by (simp add: on_file_Print on_file_misses events_defs writing_events_def paths_distinct)
  from script_zero_division_trace(3)[OF s]
  show "files w run_log_path = Some (''writing'' @ nl)" .
  show "filter (starts_with '':DISK:'') (visa_writes (trace w)) = []"
    unfolding t
    by (simp add: visa_writes_append visa_writes_Print visa_writes_misses events_defs
        writing_events_def starts_with_def)
  show "VisaClose \<notin> set (trace w)"
    unfolding t
    by (auto simp: not_closed events_defs writing_events_def)
qed

section \<open>The claims\<close>

text \<open>
  C1.  A run that returns has sent the instrument, before anything else is written to
  it, the fourteen configuration commands in the order of the seven phases: halt;
  time range, reference percent, automatic sample rate; position from the time offset;
  segmented mode, segment count from the event count, automatic points, interpolation
  off; bandwidth; channel-1 scale, then offset; trigger mode, source and level, then
  slope.  The values of the parameters change the arguments, never the order.
\<close>

theorem configuration_order:
  assumes "main k env a fs = (Done g, w)"
  shows "py_int env (arg_numEvents a) = Some (numEvents (vars g)) \<and>
    take 14 (visa_writes (trace w)) =
      ['':STOP;*OPC?'',
       '':TIMebase:RANGe '' @ f_str env (f_lit env ''1e-6''),
       '':TIMebase:REFerence:PERCent 70'',
       '':ACQuire:SRATe:ANALog:AUTO ON'',
       '':TIMebase:POSition '' @ f_str env (f_mul env (arg_timeoffset a) (f_lit env ''1e-9'')),
       '':ACQuire:MODE SEGMented'',
       '':ACQuire:SEGMented:COUNt '' @ str_int (numEvents (vars g)),
       '':ACQuire:POINts:ANALog AUTO'',
       '':ACQuire:INTerpolate 0'',
       '':ACQuire:BANDwidth 5.E10'',
       ''CHANnel1:SCALe '' @ f_str env (arg_vScale1 a),
       ''CHANnel1:OFFSet '' @ f_str env (arg_vPos1 a),
       ''TRIGger:MODE EDGE; :TRIGger:EDGE:SOURce ''
         @ (if arg_trigCh a \<noteq> ''AUX'' then ''CHANnel'' @ arg_trigCh a else arg_trigCh a)
         @ ''; :TRIGger:LEVel ''
         @ (if arg_trigCh a \<noteq> ''AUX'' then ''CHANnel'' @ arg_trigCh a else arg_trigCh a)
         @ '', '' @ f_fmt env ''%f'' (arg_trig a),
       '':TRIGger:EDGE:SLOPe '' @ arg_trigSlope a @ '';'']"
proof -
  from main_trace[OF assms] obtain r0 ps r n rs rl r1 r2 where
    t: "trace w = run_events env g r0 ps r n rs rl r1 r2"
    by blast
  have "take 14 (visa_writes (trace w)) =
      ['':STOP;*OPC?'',
       '':TIMebase:RANGe '' @ f_str env (hScale (vars g)),
       '':TIMebase:REFerence:PERCent 70'',
       '':ACQuire:SRATe:ANALog:AUTO ON'',
       '':TIMebase:POSition '' @ f_str env (timeoffset (vars g)),
       '':ACQuire:MODE SEGMented'',
       '':ACQuire:SEGMented:COUNt '' @ str_int (numEvents (vars g)),
       '':ACQuire:POINts:ANALog AUTO'',
       '':ACQuire:INTerpolate 0'',
       '':ACQuire:BANDwidth 5.E10'',
       ''CHANnel1:SCALe '' @ f_str env (vScale_ch1 (vars g)),
       ''CHANnel1:OFFSet '' @ f_str env (vPos_ch1 (vars g)),
       ''TRIGger:MODE EDGE; :TRIGger:EDGE:SOURce '' @ trigCh (vars g)
         @ ''; :TRIGger:LEVel '' @ trigCh (vars g) @ '', ''
         @ f_fmt env ''%f'' (trigLevel (vars g)),
       '':TRIGger:EDGE:SLOPe '' @ triggerSlope (vars g) @ '';'']"
    unfolding t
    by (simp add: visa_writes_append visa_writes_Print run_events_def announce_events_def
        logbook_events_def horizontal_events_def bandwidth_events_def vertical_events_def
        trigger_events_def)
  with main_vars[OF assms] show ?thesis by simp
qed

theorem configuration_order_witness:
  "\<exists>g w. main 1 (sim_env (Some 0) tick) sim_args Map.empty = (Done g, w) \<and>
     py_int (sim_env (Some 0) tick) (arg_numEvents sim_args) = Some (numEvents (vars g)) \<and>
     take 4 (visa_writes (trace w)) =
       ['':STOP;*OPC?'',
        '':TIMebase:RANGe '' @ rat_str (1 / 1000000),
        '':TIMebase:REFerence:PERCent 70'',
        '':ACQuire:SRATe:ANALog:AUTO ON'']"
proof -
  from sim_run[of Map.empty]
  obtain g w where h: "main 1 (sim_env (Some 0) tick) sim_args Map.empty = (Done g, w)"
    by auto
  have "take 4 (take 14 (visa_writes (trace w))) = take 4 (visa_writes (trace w))"
    by simp
  with configuration_order[OF h] h show ?thesis
    by (auto simp: sim_env_def)
qed

text \<open>
  C9.  The time range sent to the instrument is the literal \<^verbatim>\<open>1e-6\<close> of line 83 in
  every run that returns, and it is the only time-range command; the horizontal-window
  argument is never read, so two runs that differ only in it are the same run.
\<close>

theorem horizontal_window_unused:
  "main k env (a\<lparr>arg_horizontalWindow := hw\<rparr>) fs = main k env a fs \<and>
   (\<forall>g w. main k env a fs = (Done g, w) \<longrightarrow>
      filter (starts_with '':TIMebase:RANGe'') (visa_writes (trace w))
        = ['':TIMebase:RANGe '' @ f_str env (f_lit env ''1e-6'')])"
proof (intro conjI allI impI)
  have "read_args env (a\<lparr>arg_horizontalWindow := hw\<rparr>) = read_args env a"
    unfolding read_args_def by (simp add: Let_def cong: option.case_cong)
  then show "main k env (a\<lparr>arg_horizontalWindow := hw\<rparr>) fs = main k env a fs"
    unfolding main_def script_def by simp
next
  fix g w
  assume h: "main k env a fs = (Done g, w)"
  from main_trace[OF h] obtain r0 ps r n rs rl r1 r2 where
    t: "trace w = run_events env g r0 ps r n rs rl r1 r2"
    by blast
  have "filter (starts_with '':TIMebase:RANGe'') (visa_writes (trace w))
        = ['':TIMebase:RANGe '' @ f_str env (hScale (vars g))]"
    unfolding t
    by (simp add: visa_writes_append visa_writes_Print visa_writes_misses events_defs
        starts_with_def)
  with main_vars(3)[OF h]
  show "filter (starts_with '':TIMebase:RANGe'') (visa_writes (trace w))
        = ['':TIMebase:RANGe '' @ f_str env (f_lit env ''1e-6'')]"
    by simp
qed

theorem horizontal_window_unused_witness:
  "\<exists>g w. main 1 (sim_env (Some 0) tick) (sim_args\<lparr>arg_horizontalWindow := latin_1 ''125''\<rparr>) Map.empty
          = (Done g, w) \<and>
     main 1 (sim_env (Some 0) tick) sim_args Map.empty = (Done g, w) \<and>
     filter (starts_with '':TIMebase:RANGe'') (visa_writes (trace w))
       = ['':TIMebase:RANGe '' @ rat_str (1 / 1000000)]"
proof -
  from sim_run[of Map.empty]
  obtain g w where h: "main 1 (sim_env (Some 0) tick) sim_args Map.empty = (Done g, w)"
    by auto
  from horizontal_window_unused[where k = 1 and env = "sim_env (Some 0) tick" and a = sim_args
      and hw = "latin_1 ''125''" and fs = Map.empty] h
  show ?thesis by (auto simp: sim_env_def)
qed

text \<open>
  C7, as the code has it.  With \<^verbatim>\<open>--save\<close> not zero, a run that returns, whether the
  acquisition completed or was stopped at the deadline, ends its instrument traffic
  with the prepare directive, a read of \<^verbatim>\<open>*OPC?\<close>, one save command for channel 1 whose
  path holds the resolved run number, and a read of \<^verbatim>\<open>*OPC?\<close>; these are its only
  \<^verbatim>\<open>:DISK:\<close> commands.  With \<^verbatim>\<open>--save\<close> zero it sends no \<^verbatim>\<open>:DISK:\<close> command.  The export
  comes after the division of line 292: a run that dies there has sent no \<^verbatim>\<open>:DISK:\<close>
  command, whatever \<^verbatim>\<open>--save\<close> is.
\<close>

theorem export_when_saving:
  \<open>(\<forall>g w. main k env a fs = (Done g, w) \<longrightarrow>
      filter (starts_with '':DISK:'') (visa_writes (trace w)) =
        (if arg_save a \<noteq> 0 then
           ['':DISK:SEGMented ALL'',
            '':DISK:SAVE:WAVeform CHANnel1 ,"'' @ output_path @ ''Wavenewscope_CH1_run''
              @ str_int (runNumber g) @ ''",BIN,ON'']
         else []) \<and>
      (arg_save a \<noteq> 0 \<longrightarrow>
         (\<exists>before r1 r2. visa_io (trace w) = before @
            [VisaWrite '':DISK:SEGMented ALL'',
             VisaQuery ''*OPC?'' r1,
             VisaWrite ('':DISK:SAVE:WAVeform CHANnel1 ,"'' @ output_path
                        @ ''Wavenewscope_CH1_run'' @ str_int (runNumber g) @ ''",BIN,ON''),
             VisaQuery ''*OPC?'' r2,
             VisaClose]))) \<and>
   (\<forall>w. main k env a fs = (Raised ZeroDivisionError, w) \<longrightarrow>
      filter (starts_with '':DISK:'') (visa_writes (trace w)) = [])\<close>
proof (intro conjI allI impI)
  fix g w
  assume h: "main k env a fs = (Done g, w)"
  from main_trace[OF h] obtain r0 ps r n rs rl r1 r2 where
    t: "trace w = run_events env g r0 ps r n rs rl r1 r2"
    by blast
  note sv = main_vars(10)[OF h]
  show \<open>filter (starts_with '':DISK:'') (visa_writes (trace w)) =
           (if arg_save a \<noteq> 0 then
              ['':DISK:SEGMented ALL'',
               '':DISK:SAVE:WAVeform CHANnel1 ,"'' @ output_path @ ''Wavenewscope_CH1_run''
                 @ str_int (runNumber g) @ ''",BIN,ON'']
            else [])\<close>
    unfolding t using sv
    by (simp add: visa_writes_append visa_writes_Print visa_writes_misses events_defs
        starts_with_def)
  assume s: "arg_save a \<noteq> 0"
  have \<open>\<exists>before. visa_io (trace w) = before @
               [VisaWrite '':DISK:SEGMented ALL'',
                VisaQuery ''*OPC?'' r1,
                VisaWrite ('':DISK:SAVE:WAVeform CHANnel1 ,"'' @ output_path
                           @ ''Wavenewscope_CH1_run'' @ str_int (runNumber g) @ ''",BIN,ON''),
                VisaQuery ''*OPC?'' r2,
                VisaClose]\<close>
    unfolding t run_events_def using sv s
    by (simp add: visa_io_append visa_io_simps export_events_def status_events_def)
  then show \<open>\<exists>before r1 r2. visa_io (trace w) = before @
               [VisaWrite '':DISK:SEGMented ALL'',
                VisaQuery ''*OPC?'' r1,
                VisaWrite ('':DISK:SAVE:WAVeform CHANnel1 ,"'' @ output_path
                           @ ''Wavenewscope_CH1_run'' @ str_int (runNumber g) @ ''",BIN,ON''),
                VisaQuery ''*OPC?'' r2,
                VisaClose]\<close>
    by blast
next
  fix w
  assume "main k env a fs = (Raised ZeroDivisionError, w)"
  then show "filter (starts_with '':DISK:'') (visa_writes (trace w)) = []"
    by (rule main_zero_division(4))
qed

theorem export_when_saving_witness:
  \<open>\<exists>g w. main 1 (sim_env None tick) (sim_args\<lparr>arg_timeout := 1\<rparr>) Map.empty = (Done g, w) \<and>
     end_early g \<and>
     filter (starts_with '':DISK:'') (visa_writes (trace w)) =
       ['':DISK:SEGMented ALL'',
        '':DISK:SAVE:WAVeform CHANnel1 ,"'' @ output_path @ ''Wavenewscope_CH1_run''
          @ str_int (runNumber g) @ ''",BIN,ON'']\<close>
proof -
  have "\<exists>g w. main (Suc 0) (sim_env None tick) (sim_args\<lparr>arg_timeout := 1\<rparr>) Map.empty
          = (Done g, w) \<and> end_early g"
    by (rule sim_timed_out[where rn = 7]) (simp_all add: sim_args_def py_int_samples)
  then obtain g w where
    h: "main 1 (sim_env None tick) (sim_args\<lparr>arg_timeout := 1\<rparr>) Map.empty = (Done g, w)"
    and e: "end_early g"
    by auto
  from export_when_saving[where k = 1 and env = "sim_env None tick"
      and a = "sim_args\<lparr>arg_timeout := 1\<rparr>" and fs = Map.empty] h e
  show ?thesis
    by (auto simp: sim_args_def)
qed

text \<open>
  C7, as it is stated, fails: save is requested and the acquisition completes, but on a
  clock too coarse to tell \<^verbatim>\<open>start\<close> from \<^verbatim>\<open>end\<close> the run ends at line 292, and nothing
  is exported.
\<close>

theorem export_skipped_counterexample:
  "arg_save sim_args = 1 \<and>
   fst (main 1 (sim_env (Some 0) frozen) sim_args Map.empty) = Raised ZeroDivisionError \<and>
   filter (starts_with '':DISK:'')
     (visa_writes (trace (snd (main 1 (sim_env (Some 0) frozen) sim_args Map.empty)))) = []"
proof -
  have "fst (main (Suc 0) (sim_env (Some 0) frozen) sim_args Map.empty)
          = Raised ZeroDivisionError"
    by (rule sim_frozen[where rn = 7]) (simp_all add: sim_args_def py_int_samples)
  then obtain w where
    h: "main 1 (sim_env (Some 0) frozen) sim_args Map.empty = (Raised ZeroDivisionError, w)"
    by (cases "main 1 (sim_env (Some 0) frozen) sim_args Map.empty") simp
  from main_zero_division(4)[OF h] h show ?thesis
    by (simp add: sim_args_def)
qed

text \<open>
  C3.  In a run that returns, the operations on the status file are, in this order and
  nothing else: open for writing (which empties the file), write \<^verbatim>\<open>busy\<close>, close; open
  for writing, write \<^verbatim>\<open>writing\<close>, write a newline, close; open for writing, write
  \<^verbatim>\<open>ready\<close>, write a newline, close.  Whatever the file held before, it holds
  \<^verbatim>\<open>ready\<close> and a newline at the end.
\<close>

theorem status_sequence:
  assumes "main k env a fs = (Done g, w)"
  shows "filter (on_file run_log_path) (trace w) =
           [FileOpen run_log_path ModeW,
            FileWrite run_log_path ''busy'',
            FileClose run_log_path,
            FileOpen run_log_path ModeW,
            FileWrite run_log_path ''writing'',
            FileWrite run_log_path nl,
            FileClose run_log_path,
            FileOpen run_log_path ModeW,
            FileWrite run_log_path ''ready'',
            FileWrite run_log_path nl,
            FileClose run_log_path] \<and>
         files w run_log_path = Some (''ready'' @ nl)"
proof -
  from main_trace[OF assms] obtain r0 ps r n rs rl r1 r2 where
    t: "trace w = run_events env g r0 ps r n rs rl r1 r2"
    by blast
  have "filter (on_file run_log_path) (trace w) =
           [FileOpen run_log_path ModeW,
            FileWrite run_log_path ''busy'',
            FileClose run_log_path,
            FileOpen run_log_path ModeW,
            FileWrite run_log_path ''writing'',
            FileWrite run_log_path nl,
            FileClose run_log_path,
            FileOpen run_log_path ModeW,
            FileWrite run_log_path ''ready'',
            FileWrite run_log_path nl,
            FileClose run_log_path]"
    unfolding t
    by (simp add: on_file_Print on_file_misses events_defs paths_distinct)
  with main_result(4)[OF assms] show ?thesis by simp
qed

theorem status_sequence_witness:
  "\<exists>g w. main 1 (sim_env (Some 0) tick) sim_args [run_log_path \<mapsto> ''stale status''] = (Done g, w) \<and>
     files w run_log_path = Some (''ready'' @ nl) \<and>
     length (filter (on_file run_log_path) (trace w)) = 11"
proof -
  from sim_run[of "[run_log_path \<mapsto> ''stale status'']"]
  obtain g w where
    h: "main 1 (sim_env (Some 0) tick) sim_args [run_log_path \<mapsto> ''stale status''] = (Done g, w)"
    by auto
  from status_sequence[OF h] h show ?thesis
    by auto
qed



text \<open>
  C4.  With a timeout that is not positive, the loop of lines 266 to 279, for any
  answers of the instrument and after any number of iterations, has not sent the
  stop command and has not set \<^verbatim>\<open>end_early\<close>; when it has ended, its last query was
  answered 1.  A whole run that returns then has \<^verbatim>\<open>end_early\<close> false, and the halt of
  line 148 is the only stop command it sent.
\<close>

theorem no_deadline_never_times_out:
  assumes "\<not> f_gt env (arg_timeout a) (f_lit env ''0'')"
  shows "(\<exists>es. trace (snd (poll k env (arg_timeout a) s w)) = trace w @ es \<and>
            VisaWrite '':STOP;*OPC?'' \<notin> set es \<and>
            fst (poll k env (arg_timeout a) s w) \<noteq> Done True \<and>
            (fst (poll k env (arg_timeout a) s w) = Done False \<longrightarrow>
               (\<exists>before r. es = before @ [VisaQuery '':ADER?'' r, Print ''Acquisition complete'']
                  \<and> py_int env (latin_1 r) = Some 1))) \<and>
         (\<forall>g w'. main k env a fs = (Done g, w') \<longrightarrow>
            \<not> end_early g \<and>
            filter (\<lambda>c. c = '':STOP;*OPC?'') (visa_writes (trace w')) = ['':STOP;*OPC?''])"
proof (intro conjI allI impI)
  show "\<exists>es. trace (snd (poll k env (arg_timeout a) s w)) = trace w @ es \<and>
            VisaWrite '':STOP;*OPC?'' \<notin> set es \<and>
            fst (poll k env (arg_timeout a) s w) \<noteq> Done True \<and>
            (fst (poll k env (arg_timeout a) s w) = Done False \<longrightarrow>
               (\<exists>before r. es = before @ [VisaQuery '':ADER?'' r, Print ''Acquisition complete'']
                  \<and> py_int env (latin_1 r) = Some 1))"
    by (rule poll_no_deadline[OF assms])
next
  fix g w'
  assume h: "main k env a fs = (Done g, w')"
  from main_trace[OF h] obtain r0 ps r n rs rl r1 r2 where
    t: "trace w' = run_events env g r0 ps r n rs rl r1 r2"
    and ee: "if end_early g then rs \<noteq> [] \<and> f_gt env (timeout (vars g)) (f_lit env ''0'')
             else py_int env (latin_1 rl) = Some 1"
    by blast
  from ee assms main_vars(11)[OF h] show e: "\<not> end_early g"
    by (auto split: if_splits)
  show "filter (\<lambda>c. c = '':STOP;*OPC?'') (visa_writes (trace w')) = ['':STOP;*OPC?'']"
    unfolding t using e
    by (simp add: visa_writes_append visa_writes_Print visa_writes_misses events_defs)
qed

theorem no_deadline_never_times_out_witness:
  "\<not> f_gt (sim_env (Some 2) tick) (arg_timeout sim_args) (f_lit (sim_env (Some 2) tick) ''0'') \<and>
   fst (poll (Suc (Suc (Suc 0))) (sim_env (Some 2) tick) (arg_timeout sim_args) 0
          \<lparr>trace = [], files = Map.empty\<rparr>) = Done False \<and>
   VisaWrite '':STOP;*OPC?'' \<notin> set (trace (snd
      (poll (Suc (Suc (Suc 0))) (sim_env (Some 2) tick) (arg_timeout sim_args) 0
          \<lparr>trace = [], files = Map.empty\<rparr>)))"
proof -
  have nd: "\<not> f_gt (sim_env (Some 2) tick) (arg_timeout sim_args)
               (f_lit (sim_env (Some 2) tick) ''0'')"
    by (simp add: sim_env_def sim_args_def)
  have ev: "fst (poll (Suc (Suc (Suc 0))) (sim_env (Some 2) tick) (arg_timeout sim_args) 0
          \<lparr>trace = [], files = Map.empty\<rparr>) = Done False"
    by (simp add: bind_def dpo_query_def sleep_def emit_def py_print_def ret_def
        sim_env_def sim_args_def py_int_samples)
  from no_deadline_never_times_out[OF nd, of "Suc (Suc (Suc 0))" 0
      "\<lparr>trace = [], files = Map.empty\<rparr>"]
  have "VisaWrite '':STOP;*OPC?'' \<notin> set (trace (snd
      (poll (Suc (Suc (Suc 0))) (sim_env (Some 2) tick) (arg_timeout sim_args) 0
          \<lparr>trace = [], files = Map.empty\<rparr>)))"
    by auto
  with nd ev show ?thesis by blast
qed

text \<open>
  C10.  In a run that returns, a run-number argument that reads as any integer other
  than -1, negative ones included, is the run number, and no operation touches the
  counter file; with -1 the counter file is opened, read and closed, and the run number
  is the integer it holds.
\<close>

theorem override_verbatim:
  assumes "main k env a fs = (Done g, w)"
    and "py_int env (arg_runNumber a) = Some n"
  shows "(n \<noteq> - 1 \<longrightarrow>
            runNumber g = n \<and> filter (on_file RunNumberFile) (trace w) = []) \<and>
         (n = - 1 \<longrightarrow>
            filter (on_file RunNumberFile) (trace w)
              = [FileOpen RunNumberFile ModeR, FileRead RunNumberFile, FileClose RunNumberFile]
            \<and> (\<exists>c t. fs RunNumberFile = Some c \<and> locale_decode env c = Some t
                  \<and> py_int env (universal_newlines t) = Some (runNumber g)))"
proof -
  from main_trace[OF assms(1)] obtain r0 ps r m rs rl r1 r2 where
    t: "trace w = run_events env g r0 ps r m rs rl r1 r2"
    by blast
  from main_vars(1)[OF assms(1)] assms(2) have n: "runNumberParam (vars g) = n"
    by simp
  have f: "filter (on_file RunNumberFile) (trace w)
      = (if n = - 1
         then [FileOpen RunNumberFile ModeR, FileRead RunNumberFile, FileClose RunNumberFile]
         else [])"
    unfolding t using n
    by (simp add: on_file_Print on_file_misses events_defs paths_distinct)
  from main_result(5,6)[OF assms(1)] n f show ?thesis
    by auto
qed

theorem override_verbatim_witness:
  "\<exists>g w. main 1 (sim_env (Some 0) tick) (sim_args\<lparr>arg_runNumber := latin_1 ''-2''\<rparr>) Map.empty
          = (Done g, w) \<and>
     py_int (sim_env (Some 0) tick) (arg_runNumber (sim_args\<lparr>arg_runNumber := latin_1 ''-2''\<rparr>))
       = Some (- 2) \<and>
     runNumber g = - 2 \<and> filter (on_file RunNumberFile) (trace w) = []"
proof -
  have p: "py_int (sim_env (Some 0) tick)
             (arg_runNumber (sim_args\<lparr>arg_runNumber := latin_1 ''-2''\<rparr>)) = Some (- 2)"
    by (simp add: py_int_samples)
  have "\<exists>g w. main (Suc 0) (sim_env (Some 0) tick) (sim_args\<lparr>arg_runNumber := latin_1 ''-2''\<rparr>)
          Map.empty = (Done g, w) \<and> \<not> end_early g"
    by (rule sim_completed[where rn = "- 2"]) (simp_all add: sim_args_def py_int_samples)
  then obtain g w where
    h: "main 1 (sim_env (Some 0) tick) (sim_args\<lparr>arg_runNumber := latin_1 ''-2''\<rparr>) Map.empty
          = (Done g, w)"
    by auto
  from override_verbatim[OF h p] h p show ?thesis
    by auto
qed




text \<open>
  C5.  The whole conversation with the instrument of a run that returns.  Both stop
  commands are sent with \<^verbatim>\<open>write\<close>: what follows the halt of line 148 is the next
  write, and what follows the stop of line 278 is the export's first write or the
  closing of the session.  The only \<^verbatim>\<open>*OPC?\<close> responses that are read are those of the
  export.
\<close>

theorem stop_response_never_read:
  assumes "main k env a fs = (Done g, w)"
  shows \<open>\<exists>r0 r rs rl r1 r2. visa_io (trace w) =
     [VisaOpen ''TCPIP::192.168.0.182::INSTR'',
      VisaQuery ''*idn?'' r0,
      VisaWrite '':STOP;*OPC?'',
      VisaWrite ('':TIMebase:RANGe '' @ f_str env (hScale (vars g))),
      VisaWrite '':TIMebase:REFerence:PERCent 70'',
      VisaWrite '':ACQuire:SRATe:ANALog:AUTO ON'',
      VisaQuery '':ACQuire:SRATe:ANALog?'' r,
      VisaWrite ('':TIMebase:POSition '' @ f_str env (timeoffset (vars g))),
      VisaWrite '':ACQuire:MODE SEGMented'',
      VisaWrite ('':ACQuire:SEGMented:COUNt '' @ str_int (numEvents (vars g))),
      VisaWrite '':ACQuire:POINts:ANALog AUTO'',
      VisaWrite '':ACQuire:INTerpolate 0'',
      VisaWrite '':ACQuire:BANDwidth 5.E10'',
      VisaWrite (''CHANnel1:SCALe '' @ f_str env (vScale_ch1 (vars g))),
      VisaWrite (''CHANnel1:OFFSet '' @ f_str env (vPos_ch1 (vars g))),
      VisaWrite (''TRIGger:MODE EDGE; :TRIGger:EDGE:SOURce '' @ trigCh (vars g)
                 @ ''; :TRIGger:LEVel '' @ trigCh (vars g) @ '', ''
                 @ f_fmt env ''%f'' (trigLevel (vars g))),
      VisaWrite ('':TRIGger:EDGE:SLOPe '' @ triggerSlope (vars g) @ '';''),
      VisaWrite '':CDISplay'',
      VisaWrite ''*CLS;:SINGle'']
     @ map (VisaQuery '':ADER?'') rs
     @ (if end_early g then [VisaWrite '':STOP;*OPC?''] else [VisaQuery '':ADER?'' rl])
     @ (if savewaves (vars g) \<noteq> 0 then
          [VisaWrite '':DISK:SEGMented ALL'',
           VisaQuery ''*OPC?'' r1,
           VisaWrite ('':DISK:SAVE:WAVeform CHANnel1 ,"'' @ output_path
                      @ ''Wavenewscope_CH1_run'' @ str_int (runNumber g) @ ''",BIN,ON''),
           VisaQuery ''*OPC?'' r2]
        else [])
     @ [VisaClose]\<close>
proof -
  from main_trace[OF assms] obtain r0 ps r n rs rl r1 r2 where
    t: "trace w = run_events env g r0 ps r n rs rl r1 r2"
    by blast
  show ?thesis
    apply (rule exI[of _ r0], rule exI[of _ r], rule exI[of _ rs], rule exI[of _ rl],
           rule exI[of _ r1], rule exI[of _ r2])
    unfolding t
    by (simp add: visa_io_append visa_io_Print visa_io_misses visa_io_simps events_defs)
qed

theorem stop_response_never_read_witness:
  "\<exists>g w r0 before rs.
     main 1 (sim_env None tick) (sim_args\<lparr>arg_timeout := 1, arg_save := 0\<rparr>) Map.empty
       = (Done g, w) \<and>
     end_early g \<and>
     take 4 (visa_io (trace w)) =
       [VisaOpen ''TCPIP::192.168.0.182::INSTR'', VisaQuery ''*idn?'' r0,
        VisaWrite '':STOP;*OPC?'',
        VisaWrite ('':TIMebase:RANGe '' @ rat_str (1 / 1000000))] \<and>
     visa_io (trace w) = before @ map (VisaQuery '':ADER?'') rs
       @ [VisaWrite '':STOP;*OPC?'', VisaClose]"
proof -
  let ?a = "sim_args\<lparr>arg_timeout := 1, arg_save := 0\<rparr>"
  have "\<exists>g w. main (Suc 0) (sim_env None tick) ?a Map.empty = (Done g, w) \<and> end_early g"
    by (rule sim_timed_out[where rn = 7]) (simp_all add: sim_args_def py_int_samples)
  then obtain g w where
    h: "main 1 (sim_env None tick) ?a Map.empty = (Done g, w)"
    and e: "end_early g"
    by auto
  from main_vars(3,10)[OF h] have
    v: "hScale (vars g) = 1 / 1000000" "savewaves (vars g) = 0"
    by (simp_all add: sim_env_def)
  let ?env = "sim_env None tick"
  from stop_response_never_read[OF h] obtain r0 r rs rl r1 r2 where
    io: \<open>visa_io (trace w) =
     [VisaOpen ''TCPIP::192.168.0.182::INSTR'',
      VisaQuery ''*idn?'' r0,
      VisaWrite '':STOP;*OPC?'',
      VisaWrite ('':TIMebase:RANGe '' @ f_str ?env (hScale (vars g))),
      VisaWrite '':TIMebase:REFerence:PERCent 70'',
      VisaWrite '':ACQuire:SRATe:ANALog:AUTO ON'',
      VisaQuery '':ACQuire:SRATe:ANALog?'' r,
      VisaWrite ('':TIMebase:POSition '' @ f_str ?env (timeoffset (vars g))),
      VisaWrite '':ACQuire:MODE SEGMented'',
      VisaWrite ('':ACQuire:SEGMented:COUNt '' @ str_int (numEvents (vars g))),
      VisaWrite '':ACQuire:POINts:ANALog AUTO'',
      VisaWrite '':ACQuire:INTerpolate 0'',
      VisaWrite '':ACQuire:BANDwidth 5.E10'',
      VisaWrite (''CHANnel1:SCALe '' @ f_str ?env (vScale_ch1 (vars g))),
      VisaWrite (''CHANnel1:OFFSet '' @ f_str ?env (vPos_ch1 (vars g))),
      VisaWrite (''TRIGger:MODE EDGE; :TRIGger:EDGE:SOURce '' @ trigCh (vars g)
                 @ ''; :TRIGger:LEVel '' @ trigCh (vars g) @ '', ''
                 @ f_fmt ?env ''%f'' (trigLevel (vars g))),
      VisaWrite ('':TRIGger:EDGE:SLOPe '' @ triggerSlope (vars g) @ '';''),
      VisaWrite '':CDISplay'',
      VisaWrite ''*CLS;:SINGle'']
     @ map (VisaQuery '':ADER?'') rs
     @ (if end_early g then [VisaWrite '':STOP;*OPC?''] else [VisaQuery '':ADER?'' rl])
     @ (if savewaves (vars g) \<noteq> 0 then
          [VisaWrite '':DISK:SEGMented ALL'',
           VisaQuery ''*OPC?'' r1,
           VisaWrite ('':DISK:SAVE:WAVeform CHANnel1 ,"'' @ output_path
                      @ ''Wavenewscope_CH1_run'' @ str_int (runNumber g) @ ''",BIN,ON''),
           VisaQuery ''*OPC?'' r2]
        else [])
     @ [VisaClose]\<close>
    by blast
  have 1: "take 4 (visa_io (trace w)) =
       [VisaOpen ''TCPIP::192.168.0.182::INSTR'', VisaQuery ''*idn?'' r0,
        VisaWrite '':STOP;*OPC?'',
        VisaWrite ('':TIMebase:RANGe '' @ rat_str (1 / 1000000))]"
    unfolding io v by (simp add: sim_env_def)
  have 2: "visa_io (trace w) = take 19 (visa_io (trace w)) @ map (VisaQuery '':ADER?'') rs
       @ [VisaWrite '':STOP;*OPC?'', VisaClose]"
    unfolding io v using e by simp
  from h e 1 2 show ?thesis by blast
qed

text \<open>
  C6.  Run-number resolution (lines 108 to 114).  With the argument -1 the result is
  decided by the counter file: \<^verbatim>\<open>PermissionError\<close> when it cannot be opened,
  \<^verbatim>\<open>FileNotFoundError\<close> when it is missing, \<^verbatim>\<open>UnicodeDecodeError\<close> when its bytes are
  not text in the encoding of the locale, \<^verbatim>\<open>ValueError\<close> when \<^verbatim>\<open>int\<close> does not read the
  text, and the integer otherwise, so 42 for a file whose text is \<^verbatim>\<open>42\<close>.  With another
  argument, 7 for one, the result is the argument and the world is untouched.  A run
  that cannot resolve its number ends in an exception before it has written anything
  to the instrument.  However a run ends, the counter file holds what it held.
\<close>

theorem run_number_resolution:
  "(runNumberParam v = - 1 \<longrightarrow>
      fst (configure_run_number env v w0) =
        (if os_denies env RunNumberFile ModeR then Raised PermissionError
         else case files w0 RunNumberFile of
                None \<Rightarrow> Raised FileNotFoundError
              | Some c \<Rightarrow>
                  (case locale_decode env c of
                     None \<Rightarrow> Raised UnicodeDecodeError
                   | Some t \<Rightarrow>
                       (case py_int env (universal_newlines t) of
                          None \<Rightarrow> Raised ValueError
                        | Some n \<Rightarrow> Done n)))) \<and>
   (runNumberParam v \<noteq> - 1 \<longrightarrow>
      configure_run_number env v w0 = (Done (runNumberParam v), w0)) \<and>
   (py_int env (arg_runNumber a) = Some (- 1) \<and>
    (os_denies env RunNumberFile ModeR \<or> fs RunNumberFile = None \<or>
     (\<exists>c. fs RunNumberFile = Some c \<and>
        (locale_decode env c = None \<or>
         (\<exists>t. locale_decode env c = Some t \<and> py_int env (universal_newlines t) = None)))) \<longrightarrow>
      (\<exists>e. fst (main k env a fs) = Raised e \<and>
           e \<in> {VisaIOError, ValueError, UnicodeDecodeError, PermissionError,
                FileNotFoundError}) \<and>
      visa_writes (trace (snd (main k env a fs))) = []) \<and>
   (\<forall>g w c. main k env a fs = (Done g, w) \<and> py_int env (arg_runNumber a) = Some (- 1) \<and>
          fs RunNumberFile = Some c \<and> locale_decode env c = Some (latin_1 ''42'')
          \<longrightarrow> runNumber g = 42) \<and>
   (\<forall>g w. main k env a fs = (Done g, w) \<and> py_int env (arg_runNumber a) = Some 7 \<longrightarrow>
          runNumber g = 7 \<and> filter (on_file RunNumberFile) (trace w) = []) \<and>
   files (snd (main k env a fs)) RunNumberFile = fs RunNumberFile"
proof (intro conjI allI impI)
  assume "runNumberParam v = - 1"
  then show "fst (configure_run_number env v w0) =
        (if os_denies env RunNumberFile ModeR then Raised PermissionError
         else case files w0 RunNumberFile of
                None \<Rightarrow> Raised FileNotFoundError
              | Some c \<Rightarrow>
                  (case locale_decode env c of
                     None \<Rightarrow> Raised UnicodeDecodeError
                   | Some t \<Rightarrow>
                       (case py_int env (universal_newlines t) of
                          None \<Rightarrow> Raised ValueError
                        | Some n \<Rightarrow> Done n)))"
    by (rule configure_minus_one(1))
next
  assume "runNumberParam v \<noteq> - 1"
  then show "configure_run_number env v w0 = (Done (runNumberParam v), w0)"
    by (simp add: configure_run_number_def ret_def)
next
  assume b: "py_int env (arg_runNumber a) = Some (- 1) \<and>
    (os_denies env RunNumberFile ModeR \<or> fs RunNumberFile = None \<or>
     (\<exists>c. fs RunNumberFile = Some c \<and>
        (locale_decode env c = None \<or>
         (\<exists>t. locale_decode env c = Some t \<and> py_int env (universal_newlines t) = None))))"
  from counter_failure[of env a "\<lparr>trace = [], files = fs\<rparr>" k] b
  obtain e w where "main k env a fs = (Raised e, w)"
    "e \<in> {VisaIOError, ValueError, UnicodeDecodeError, PermissionError, FileNotFoundError}"
    "visa_writes (trace w) = []"
    by (auto simp: main_def)
  then show "\<exists>e. fst (main k env a fs) = Raised e \<and>
           e \<in> {VisaIOError, ValueError, UnicodeDecodeError, PermissionError,
                FileNotFoundError}"
    and "visa_writes (trace (snd (main k env a fs))) = []"
    by simp_all
next
  fix g w c
  assume h: "main k env a fs = (Done g, w) \<and> py_int env (arg_runNumber a) = Some (- 1) \<and>
          fs RunNumberFile = Some c \<and> locale_decode env c = Some (latin_1 ''42'')"
  then have m: "main k env a fs = (Done g, w)" and n: "runNumberParam (vars g) = - 1"
    using main_vars(1)[of k env a fs g w] by simp_all
  from main_result(6)[OF m n] h show "runNumber g = 42"
    by (auto simp: py_int_samples newlines_42)
next
  fix g w
  assume h: "main k env a fs = (Done g, w) \<and> py_int env (arg_runNumber a) = Some 7"
  then have m: "main k env a fs = (Done g, w)" and n: "runNumberParam (vars g) = 7"
    using main_vars(1)[of k env a fs g w] by simp_all
  from main_result(5)[OF m] n show "runNumber g = 7" by simp
  from main_trace[OF m] obtain r0 ps r i rs rl r1 r2 where
    t: "trace w = run_events env g r0 ps r i rs rl r1 r2"
    by blast
  show "filter (on_file RunNumberFile) (trace w) = []"
    unfolding t using n
    by (simp add: on_file_Print on_file_misses events_defs paths_distinct)
next
  from keeps_counter[of k env a] show "files (snd (main k env a fs)) RunNumberFile = fs RunNumberFile"
    by (simp add: keeps_def main_def)
qed

theorem run_number_resolution_witness:
  "(\<exists>g w. main 1 (sim_env (Some 0) tick) (sim_args\<lparr>arg_runNumber := latin_1 ''-1''\<rparr>)
             [RunNumberFile \<mapsto> ''42''] = (Done g, w) \<and> runNumber g = 42) \<and>
   fst (main 1 (sim_env (Some 0) tick) (sim_args\<lparr>arg_runNumber := latin_1 ''-1''\<rparr>) Map.empty)
     = Raised FileNotFoundError \<and>
   visa_writes (trace (snd (main 1 (sim_env (Some 0) tick)
     (sim_args\<lparr>arg_runNumber := latin_1 ''-1''\<rparr>) Map.empty))) = [] \<and>
   fst (main 1 (sim_env (Some 0) tick) (sim_args\<lparr>arg_runNumber := latin_1 ''-1''\<rparr>)
          [RunNumberFile \<mapsto> [CHR 0x1C, CHR ''4'', CHR ''2'']])
     = Raised ValueError \<and>
   fst (main 1 (sim_env (Some 0) tick) (sim_args\<lparr>arg_runNumber := latin_1 ''-1''\<rparr>)
          [RunNumberFile \<mapsto> [CHR 0x81]])
     = Raised UnicodeDecodeError \<and>
   (\<exists>v. fst (configure_run_number (sim_env (Some 0) tick) (v\<lparr>runNumberParam := - 1\<rparr>)
          \<lparr>trace = [], files = [RunNumberFile \<mapsto> [CHR 0xA0, CHR ''4'', CHR ''2'', CHR 0x0D, CHR 0x0A]]\<rparr>)
     = Done 42) \<and>
   (\<exists>g w. main 1 (sim_env (Some 0) tick) sim_args Map.empty = (Done g, w) \<and> runNumber g = 7)"
proof -
  let ?env = "sim_env (Some 0) tick"
  let ?a = "sim_args\<lparr>arg_runNumber := latin_1 ''-1''\<rparr>"
  have p: "py_int ?env (arg_runNumber ?a) = Some (- 1)"
    by (simp add: py_int_samples)
  have "\<exists>g w. main (Suc 0) ?env ?a [RunNumberFile \<mapsto> ''42''] = (Done g, w) \<and> \<not> end_early g"
    by (rule sim_completed[where rn = "- 1"])
       (simp_all add: sim_args_def py_int_def latin_1_def Py_ISSPACE_def is_digit_def)
  then obtain g w where h: "main 1 ?env ?a [RunNumberFile \<mapsto> ''42''] = (Done g, w)"
    by auto
  have d: "locale_decode ?env ''42'' = Some (latin_1 ''42'')"
    by (simp add: sim_decode latin_1_def)
  note r = run_number_resolution[where env = ?env and a = ?a
      and fs = "[RunNumberFile \<mapsto> ''42'']" and k = 1,
      THEN conjunct2, THEN conjunct2, THEN conjunct2, THEN conjunct1, rule_format,
      of g w "''42''"]
  have 1: "runNumber g = 42"
    by (rule r) (insert h p d, simp)
  have c: "fst (configure_run_number ?env (v\<lparr>runNumberParam := - 1\<rparr>) \<lparr>trace = [], files = fs\<rparr>)
      = (case fs RunNumberFile of
           None \<Rightarrow> Raised FileNotFoundError
         | Some c \<Rightarrow>
             (case cp1252 c of
                None \<Rightarrow> Raised UnicodeDecodeError
              | Some t \<Rightarrow>
                  (case py_int cpython (universal_newlines t) of
                     None \<Rightarrow> Raised ValueError
                   | Some n \<Rightarrow> Done n)))" for v :: "rat vars" and fs
  proof -
    have o: "\<not> os_denies ?env RunNumberFile ModeR"
      by (simp add: sim_env_def)
    note r = run_number_resolution[where env = ?env and v = "v\<lparr>runNumberParam := - 1\<rparr>"
        and ?w0.0 = "\<lparr>trace = [], files = fs\<rparr>", THEN conjunct1, rule_format]
    have "fst (configure_run_number ?env (v\<lparr>runNumberParam := - 1\<rparr>)
            \<lparr>trace = [], files = fs\<rparr>)
      = (if os_denies ?env RunNumberFile ModeR then Raised PermissionError
         else case files \<lparr>trace = [], files = fs\<rparr> RunNumberFile of
                None \<Rightarrow> Raised FileNotFoundError
              | Some c \<Rightarrow>
                  (case locale_decode ?env c of
                     None \<Rightarrow> Raised UnicodeDecodeError
                   | Some t \<Rightarrow>
                       (case py_int ?env (universal_newlines t) of
                          None \<Rightarrow> Raised ValueError
                        | Some n \<Rightarrow> Done n)))"
      by (rule r) simp
    then show ?thesis
      unfolding sim_decode sim_py_int by (simp add: o)
  qed
  have 2: "fst (main 1 ?env ?a Map.empty) = Raised FileNotFoundError"
    by (rule sim_counter_error) (simp add: c)
  note r3 = run_number_resolution[where env = ?env and a = ?a and fs = Map.empty and k = 1,
      THEN conjunct2, THEN conjunct2, THEN conjunct1, rule_format, THEN conjunct2]
  have 3: "visa_writes (trace (snd (main 1 ?env ?a Map.empty))) = []"
    by (rule r3) (insert p, simp)
  have 4: "fst (main 1 ?env ?a [RunNumberFile \<mapsto> [CHR 0x1C, CHR ''4'', CHR ''2'']])
      = Raised ValueError"
    by (rule sim_counter_error) (simp add: c py_int_def Py_ISSPACE_def is_digit_def)
  have 5: "fst (main 1 ?env ?a [RunNumberFile \<mapsto> [CHR 0x81]]) = Raised UnicodeDecodeError"
    by (rule sim_counter_error) (simp add: c cp1252_high_def)
  have 6: "fst (configure_run_number ?env (v\<lparr>runNumberParam := - 1\<rparr>)
          \<lparr>trace = [], files = [RunNumberFile \<mapsto> [CHR 0xA0, CHR ''4'', CHR ''2'', CHR 0x0D, CHR 0x0A]]\<rparr>)
     = Done 42" for v :: "rat vars"
    by (simp add: c py_int_def Py_ISSPACE_def is_digit_def cpython_def ucd_space_def)
  from sim_run[of Map.empty] obtain g' w' where
    h': "main 1 ?env sim_args Map.empty = (Done g', w')"
    by auto
  note r7 = run_number_resolution[where env = ?env and a = sim_args and fs = Map.empty and k = 1,
      THEN conjunct2, THEN conjunct2, THEN conjunct2, THEN conjunct2, THEN conjunct1,
      rule_format, of g' w', THEN conjunct1]
  have 7: "runNumber g' = 7"
    by (rule r7) (insert h' sim_args_parse(1)[of ?env], simp)
  from h 1 2 3 4 5 6 h' 7 show ?thesis by blast
qed

end
